theory Spec2Isabelle
  imports Main
begin

section \<open>The emulation session of pimp\_my\_ride.py\<close>

text \<open>
  The session class \<^verbatim>\<open>PimpMyRide\<close> drives an emulation engine and a disassembler that
  are external libraries. Their operations are parameters of the model (a record of
  functions over an engine state \<open>'e\<close>); an engine error is the message of the library's
  \<^verbatim>\<open>UcError\<close>. Logging and printing are left out. Python's unbounded integers are
  \<open>int\<close>; \<^verbatim>\<open>//\<close> is floor division, as \<open>div\<close> on \<open>int\<close> is. A Python 2 \<^verbatim>\<open>str\<close>
  is a byte string, modelled as \<open>string\<close>.
\<close>

subsection \<open>Exceptions\<close>

datatype exn =
    PimpMyRideException string
  | UcError string
  | CsError string
  | PyException string
  | AttributeError string
  | NameError string
  | TypeError string
  | IndexError string
  | StructError string
  | ValueError string
  | ArgumentError string
  | ZeroDivisionError string

subsection \<open>Constants\<close>

definition PAGE_SIZE :: int where
  "PAGE_SIZE = 0x1000"

definition COMPILE_GCC :: int where
  "COMPILE_GCC = 0"

definition COMPILE_MSVC :: int where
  "COMPILE_MSVC = 1"

text \<open>
  Architecture and mode constants of the engine library and of the disassembler library.
  The session adds them and compares them, so they carry the libraries' published values.
\<close>

definition UC_ARCH_ARM :: int where "UC_ARCH_ARM = 1"
definition UC_ARCH_ARM64 :: int where "UC_ARCH_ARM64 = 2"
definition UC_ARCH_MIPS :: int where "UC_ARCH_MIPS = 3"
definition UC_ARCH_X86 :: int where "UC_ARCH_X86 = 4"

definition UC_MODE_LITTLE_ENDIAN :: int where "UC_MODE_LITTLE_ENDIAN = 0"
definition UC_MODE_BIG_ENDIAN :: int where "UC_MODE_BIG_ENDIAN = 1073741824"
definition UC_MODE_ARM :: int where "UC_MODE_ARM = 0"
definition UC_MODE_THUMB :: int where "UC_MODE_THUMB = 16"
definition UC_MODE_16 :: int where "UC_MODE_16 = 2"
definition UC_MODE_32 :: int where "UC_MODE_32 = 4"
definition UC_MODE_64 :: int where "UC_MODE_64 = 8"
definition UC_MODE_MIPS32 :: int where "UC_MODE_MIPS32 = 4"
definition UC_MODE_MIPS64 :: int where "UC_MODE_MIPS64 = 8"

definition UC_PROT_ALL :: int where "UC_PROT_ALL = 7"
definition UC_HOOK_CODE :: int where "UC_HOOK_CODE = 4"

definition CS_ARCH_ARM :: int where "CS_ARCH_ARM = 0"
definition CS_ARCH_ARM64 :: int where "CS_ARCH_ARM64 = 1"
definition CS_ARCH_MIPS :: int where "CS_ARCH_MIPS = 2"
definition CS_ARCH_X86 :: int where "CS_ARCH_X86 = 3"

definition CS_MODE_LITTLE_ENDIAN :: int where "CS_MODE_LITTLE_ENDIAN = 0"
definition CS_MODE_BIG_ENDIAN :: int where "CS_MODE_BIG_ENDIAN = 2147483648"
definition CS_MODE_ARM :: int where "CS_MODE_ARM = 0"
definition CS_MODE_16 :: int where "CS_MODE_16 = 2"
definition CS_MODE_32 :: int where "CS_MODE_32 = 4"
definition CS_MODE_64 :: int where "CS_MODE_64 = 8"
definition CS_MODE_MIPS32 :: int where "CS_MODE_MIPS32 = 4"

lemmas uc_consts =
  UC_ARCH_ARM_def UC_ARCH_ARM64_def UC_ARCH_MIPS_def UC_ARCH_X86_def
  UC_MODE_LITTLE_ENDIAN_def UC_MODE_BIG_ENDIAN_def UC_MODE_ARM_def UC_MODE_THUMB_def
  UC_MODE_16_def UC_MODE_32_def UC_MODE_64_def UC_MODE_MIPS32_def UC_MODE_MIPS64_def

text \<open>
  A register identifier of the engine library is only ever handed to the engine: the
  session never computes with it. An identifier imported from the library is therefore
  kept by its name (\<open>UC ''UC_X86_REG_RAX''\<close>), and an integer literal used in
  its place (\<^verbatim>\<open>0\<close>, \<^verbatim>\<open>0x11223344\<close>) is \<open>REG_LITERAL\<close>. Different names used by
  the session denote different registers of the library, and none of them is a literal.
\<close>

datatype reg_id = UC string | REG_LITERAL int

text \<open>A hook is a Python callable: the session's own trace callback or a user's function.\<close>

datatype hook_fn = CODE_CALLBACK | USER_HOOK string

subsection \<open>The engine and the disassembler\<close>

record 'e engine =
  Uc :: "int \<Rightarrow> int \<Rightarrow> string + 'e"
  uc_mem_map :: "'e \<Rightarrow> int \<Rightarrow> int \<Rightarrow> int option \<Rightarrow> string + 'e"
  uc_mem_read :: "'e \<Rightarrow> int \<Rightarrow> int \<Rightarrow> string + string"
  uc_mem_write :: "'e \<Rightarrow> int \<Rightarrow> string \<Rightarrow> string + 'e"
  uc_reg_read :: "'e \<Rightarrow> reg_id \<Rightarrow> string + int"
  uc_reg_write :: "'e \<Rightarrow> reg_id \<Rightarrow> int \<Rightarrow> string + 'e"
  uc_hook_add :: "'e \<Rightarrow> int \<Rightarrow> hook_fn \<Rightarrow> string + 'e"
  uc_emu_stop :: "'e \<Rightarrow> string + 'e"
  Cs :: "int \<Rightarrow> int \<Rightarrow> string option"
  cs_disasm :: "int \<times> int \<Rightarrow> string \<Rightarrow> int \<Rightarrow> string + (string \<times> string) list"

text \<open>
  \<open>Uc arch mode\<close> creates an engine instance. \<open>Cs arch mode\<close> creates a disassembler,
  which has no state of its own: \<open>None\<close> is success (the handle is the pair of its
  arguments) and \<open>Some msg\<close> the library's error. \<open>cs_disasm\<close> yields the mnemonic and
  the operand string of each decoded instruction.
\<close>

subsection \<open>The session object\<close>

text \<open>
  Attributes that \<^verbatim>\<open>__init__\<close> may leave unset, or set to \<^verbatim>\<open>None\<close>, are options.
  The dictionaries \<^verbatim>\<open>__regs\<close> and \<^verbatim>\<open>__hooks\<close> are association lists; a breakpoint
  callback is a function on the state \<open>'w\<close> of whoever registered it, which
  returns the new state and the exception it raised, if any.
\<close>

record ('e, 'w) session =
  uc :: "'e option"
  cs :: "(int \<times> int) option"
  code :: "string option"
  start_address :: "int option"
  return_address :: "int option"
  memory_areas :: "(int \<times> int) list"
  memory_contents :: "(int \<times> string) list"
  stack :: int
  stack_size :: int
  compiler :: int
  breakpoints :: "int list"
  breakpoints_callback :: "(int \<Rightarrow> 'w \<Rightarrow> 'w \<times> exn option) list"
  architecture :: "int option"
  mode :: "int option"
  cs_arch :: int
  cs_mode :: int
  regs :: "(string \<times> int) list"
  hooks :: "(int \<times> hook_fn) list"
  pack_endian :: "char option"
  step :: "int option"
  pack_format :: "char option"
  REG_PC :: "reg_id option"
  REG_SP :: "reg_id option"
  REG_RA :: "reg_id option"
  REG_RES :: "reg_id option"
  REG_ARGS :: "reg_id list option"

definition align_address :: "int \<Rightarrow> int" where
  "align_address address = address div PAGE_SIZE * PAGE_SIZE"

text \<open>The \<^verbatim>\<open>if/elif\<close> chain of \<^verbatim>\<open>__init__\<close> that selects the engine and disassembler modes.\<close>

definition select_architecture :: "string \<Rightarrow> int \<Rightarrow> bool \<Rightarrow> exn + (int \<times> int \<times> int \<times> int)" where
  "select_architecture arch_name bits is_little_endian =
    (if arch_name = ''ppc'' then Inl (PimpMyRideException ''PowerPC is unsupported.'')
     else if arch_name = ''MIPS'' then
       Inr (UC_ARCH_MIPS,
            (if is_little_endian then UC_MODE_MIPS32 + UC_MODE_LITTLE_ENDIAN
             else UC_MODE_MIPS32 + UC_MODE_BIG_ENDIAN),
            CS_ARCH_MIPS,
            (if is_little_endian then CS_MODE_MIPS32 + CS_MODE_LITTLE_ENDIAN
             else CS_MODE_MIPS32 + CS_MODE_BIG_ENDIAN))
     else if arch_name = ''ARM'' then Inr (UC_ARCH_ARM, UC_MODE_ARM, CS_ARCH_ARM, CS_MODE_ARM)
     else if arch_name = ''AArch64'' then Inr (UC_ARCH_ARM64, UC_MODE_ARM, CS_ARCH_ARM64, CS_MODE_ARM)
     else if arch_name = ''x86'' then
       (if bits = 32 then Inr (UC_ARCH_X86, UC_MODE_32, CS_ARCH_X86, CS_MODE_32)
        else if bits = 16 then Inr (UC_ARCH_X86, UC_MODE_16, CS_ARCH_X86, CS_MODE_16)
        else Inl (PimpMyRideException ''Unknown bit width for x86 architecture''))
     else if arch_name = ''x64'' then Inr (UC_ARCH_X86, UC_MODE_64, CS_ARCH_X86, CS_MODE_64)
     else Inl (PimpMyRideException (''Unsupported architecture '' @ arch_name)))"

definition setup_x86 :: "('e, 'w) session \<Rightarrow> ('e, 'w) session" where
  "setup_x86 s0 =
    (let s = s0\<lparr>pack_endian := Some CHR ''<''\<rparr> in
     if mode s = Some UC_MODE_16 then
       s\<lparr>step := Some 2, pack_format := Some CHR ''H'',
         REG_PC := Some (UC ''UC_X86_REG_PC''), REG_SP := Some (UC ''UC_X86_REG_SP''),
         REG_RA := Some (REG_LITERAL 0), REG_RES := Some (UC ''UC_X86_REG_AX''),
         REG_ARGS := Some []\<rparr>
     else if mode s = Some UC_MODE_32 then
       s\<lparr>step := Some 4, pack_format := Some CHR ''I'',
         REG_PC := Some (UC ''UC_X86_REG_EIP''), REG_SP := Some (UC ''UC_X86_REG_ESP''),
         REG_RA := Some (REG_LITERAL 0), REG_RES := Some (UC ''UC_X86_REG_EAX''),
         REG_ARGS := Some []\<rparr>
     else if mode s = Some UC_MODE_64 then
       (let s = s\<lparr>step := Some 8, pack_format := Some CHR ''Q'',
                   REG_PC := Some (UC ''UC_X86_REG_RIP''), REG_SP := Some (UC ''UC_X86_REG_RSP''),
                   REG_RA := Some (REG_LITERAL 0), REG_RES := Some (UC ''UC_X86_REG_RAX'')\<rparr> in
        if compiler s = COMPILE_GCC then
          s\<lparr>REG_ARGS := Some [UC ''UC_X86_REG_RDI'', UC ''UC_X86_REG_RSI'', UC ''UC_X86_REG_RDX'',
                              UC ''UC_X86_REG_RCX'', UC ''UC_X86_REG_R8'', UC ''UC_X86_REG_R9'']\<rparr>
        else if compiler s = COMPILE_MSVC then
          s\<lparr>REG_ARGS := Some [UC ''UC_X86_REG_RCX'', UC ''UC_X86_REG_RDX'',
                              UC ''UC_X86_REG_R8'', UC ''UC_X86_REG_R9'']\<rparr>
        else s)
     else s)"

definition setup_arm :: "('e, 'w) session \<Rightarrow> ('e, 'w) session" where
  "setup_arm s0 =
    (let s = s0\<lparr>pack_endian := Some CHR ''<''\<rparr>;
         s = (if mode s = Some UC_MODE_ARM then s\<lparr>step := Some 4, pack_format := Some CHR ''I''\<rparr>
              else if mode s = Some UC_MODE_THUMB then s\<lparr>step := Some 2, pack_format := Some CHR ''H''\<rparr>
              else s) in
     s\<lparr>REG_PC := Some (UC ''UC_ARM_REG_PC''), REG_SP := Some (UC ''UC_ARM_REG_SP''),
       REG_RA := Some (UC ''UC_ARM_REG_LR''), REG_RES := Some (UC ''UC_ARM_REG_R0''),
       REG_ARGS := Some [UC ''UC_ARM_REG_R0'', UC ''UC_ARM_REG_R1'', UC ''UC_ARM_REG_R2'',
                         UC ''UC_ARM_REG_R3'']\<rparr>)"

definition setup_arm64 :: "('e, 'w) session \<Rightarrow> ('e, 'w) session" where
  "setup_arm64 s =
    s\<lparr>step := Some 8, pack_format := Some CHR ''Q'', pack_endian := Some CHR ''<'',
      REG_PC := Some (UC ''UC_ARM64_REG_PC''), REG_SP := Some (UC ''UC_ARM64_REG_SP''),
      REG_RA := Some (UC ''UC_ARM64_REG_LR''), REG_RES := Some (UC ''UC_ARM64_REG_X0''),
      REG_ARGS := Some [UC ''UC_ARM64_REG_X0'', UC ''UC_ARM64_REG_X1'', UC ''UC_ARM64_REG_X2'',
                        UC ''UC_ARM64_REG_X3'', UC ''UC_ARM64_REG_X4'', UC ''UC_ARM64_REG_X5'',
                        UC ''UC_ARM64_REG_X6'', UC ''UC_ARM64_REG_X7'']\<rparr>"

definition setup_mips :: "('e, 'w) session \<Rightarrow> ('e, 'w) session" where
  "setup_mips s0 =
    (let s = s0\<lparr>pack_endian := Some CHR ''<''\<rparr>;
         s = (if mode s = Some UC_MODE_MIPS32 then s\<lparr>step := Some 4, pack_format := Some CHR ''I''\<rparr>
              else if mode s = Some UC_MODE_MIPS64 then s\<lparr>step := Some 8, pack_format := Some CHR ''Q''\<rparr>
              else s) in
     s\<lparr>REG_PC := Some (UC ''UC_MIPS_REG_PC''), REG_SP := Some (UC ''UC_MIPS_REG_SP''),
       REG_RA := Some (UC ''UC_MIPS_REG_RA''), REG_RES := Some (UC ''UC_MIPS_REG_V0''),
       REG_ARGS := Some [UC ''UC_MIPS_REG_A0'', UC ''UC_MIPS_REG_A1'', UC ''UC_MIPS_REG_A2'',
                         UC ''UC_MIPS_REG_A3'']\<rparr>)"

text \<open>\<^verbatim>\<open>_setup_registers\<close>: one branch for each architecture, each given above.\<close>

definition setup_registers :: "('e, 'w) session \<Rightarrow> ('e, 'w) session" where
  "setup_registers s =
    (if architecture s = Some UC_ARCH_X86 then setup_x86 s
     else if architecture s = Some UC_ARCH_ARM then setup_arm s
     else if architecture s = Some UC_ARCH_ARM64 then setup_arm64 s
     else if architecture s = Some UC_ARCH_MIPS then setup_mips s
     else s)"

text \<open>
  The constructor \<^verbatim>\<open>PimpMyRide(architecture, bits, is_little_endian, stack, stack_size,
  compiler)\<close>. The stack base is aligned before it is stored.
\<close>

definition PimpMyRide ::
  "string \<Rightarrow> int \<Rightarrow> bool \<Rightarrow> int \<Rightarrow> int \<Rightarrow> int \<Rightarrow> exn + ('e, 'w) session" where
  "PimpMyRide arch_name bits is_little_endian stack0 stack_size0 compiler0 =
    (case select_architecture arch_name bits is_little_endian of
       Inl ex \<Rightarrow> Inl ex
     | Inr (cur_arch, cur_mode, csa, csm) \<Rightarrow>
         Inr (setup_registers
           \<lparr>uc = None, cs = None, code = None, start_address = None, return_address = None,
            memory_areas = [], memory_contents = [],
            stack = align_address stack0, stack_size = stack_size0,
            compiler = compiler0, breakpoints = [], breakpoints_callback = [],
            architecture = Some cur_arch, mode = Some cur_mode,
            cs_arch = csa, cs_mode = csm, regs = [], hooks = [],
            pack_endian = None, step = None, pack_format = None,
            REG_PC = None, REG_SP = None, REG_RA = None, REG_RES = None, REG_ARGS = None\<rparr>))"

subsection \<open>Declaring memory\<close>

definition add_memory_content ::
  "('e, 'w) session \<Rightarrow> int \<Rightarrow> string \<Rightarrow> exn + ('e, 'w) session" where
  "add_memory_content s address content =
    (if length content = 0 then Inl (NameError ''size'')
     else Inr (s\<lparr>memory_contents := memory_contents s @ [(address, content)]\<rparr>))"

definition add_memory_area ::
  "('e, 'w) session \<Rightarrow> int \<Rightarrow> int \<Rightarrow> exn + ('e, 'w) session" where
  "add_memory_area s address sz =
    (if sz \<le> 0 then Inl (PimpMyRideException ''Invalid memory area size specified'')
     else Inr (s\<lparr>memory_areas := memory_areas s @ [(address, sz)]\<rparr>))"

subsection \<open>Range validation and memory access\<close>

fun area_loop :: "(int \<times> int) list \<Rightarrow> int \<Rightarrow> int \<Rightarrow> bool" where
  "area_loop [] start_addr end_addr = False"
| "area_loop ((address, sz) # rest) start_addr end_addr =
     (if start_addr \<ge> address \<and> end_addr \<le> address + sz then True
      else area_loop rest start_addr end_addr)"

definition is_valid_memory_range :: "('e, 'w) session \<Rightarrow> int \<Rightarrow> int \<Rightarrow> bool" where
  "is_valid_memory_range s start_addr end_addr =
    (if area_loop (memory_areas s) start_addr end_addr then True
     else if start_addr \<ge> stack s \<and> end_addr \<le> (stack_size s * PAGE_SIZE) + stack s then True
     else False)"

text \<open>
  \<^verbatim>\<open>read_memory\<close> returns the bytes read; on a range that fails validation it returns the
  empty string.
\<close>

definition read_memory :: "'e engine \<Rightarrow> ('e, 'w) session \<Rightarrow> int \<Rightarrow> int \<Rightarrow> exn + string" where
  "read_memory U s address sz =
    (if \<not> is_valid_memory_range s address (address + sz) then Inr ''''
     else case uc s of
       None \<Rightarrow> Inl (AttributeError ''mem_read'')
     | Some e \<Rightarrow> (case uc_mem_read U e address sz of
         Inl msg \<Rightarrow> Inl (UcError msg)
       | Inr content \<Rightarrow> Inr content))"

text \<open>
  \<^verbatim>\<open>write_memory\<close> returns the empty string on a range that fails validation and
  \<^verbatim>\<open>None\<close> after the write.
\<close>

definition write_memory ::
  "'e engine \<Rightarrow> ('e, 'w) session \<Rightarrow> int \<Rightarrow> string \<Rightarrow> exn + (('e, 'w) session \<times> string option)" where
  "write_memory U s address content =
    (if \<not> is_valid_memory_range s address (address + int (length content)) then Inr (s, Some '''')
     else case uc s of
       None \<Rightarrow> Inl (AttributeError ''mem_write'')
     | Some e \<Rightarrow> (case uc_mem_write U e address content of
         Inl msg \<Rightarrow> Inl (UcError msg)
       | Inr e' \<Rightarrow> Inr (s\<lparr>uc := Some e'\<rparr>, None)))"

definition memory_map ::
  "'e engine \<Rightarrow> ('e, 'w) session \<Rightarrow> int \<Rightarrow> int \<Rightarrow> int option \<Rightarrow> exn + ('e, 'w) session" where
  "memory_map U s address sz perm =
    (case uc s of
       None \<Rightarrow> Inl (AttributeError ''mem_map'')
     | Some e \<Rightarrow>
        (case (if perm \<noteq> None \<and> perm \<noteq> Some 0 then uc_mem_map U e address sz perm
               else uc_mem_map U e address sz None) of
           Inl msg \<Rightarrow> Inl (UcError msg)
         | Inr e' \<Rightarrow> Inr (s\<lparr>uc := Some e'\<rparr>)))"

subsection \<open>Breakpoints\<close>

definition add_breakpoint_callback ::
  "('e, 'w) session \<Rightarrow> (int \<Rightarrow> 'w \<Rightarrow> 'w \<times> exn option) \<Rightarrow> ('e, 'w) session" where
  "add_breakpoint_callback s callback = s\<lparr>breakpoints_callback := breakpoints_callback s @ [callback]\<rparr>"

definition set_breakpoint :: "('e, 'w) session \<Rightarrow> int \<Rightarrow> ('e, 'w) session" where
  "set_breakpoint s addr = s\<lparr>breakpoints := breakpoints s @ [addr]\<rparr>"

text \<open>\<^verbatim>\<open>list.remove\<close> deletes the first occurrence, as \<open>remove1\<close> does.\<close>

definition remove_breakpoint :: "('e, 'w) session \<Rightarrow> int \<Rightarrow> ('e, 'w) session" where
  "remove_breakpoint s addr =
    (if addr \<in> set (breakpoints s) then s\<lparr>breakpoints := remove1 addr (breakpoints s)\<rparr> else s)"

subsection \<open>Committing memory to the engine\<close>

text \<open>The mapping request that \<^verbatim>\<open>__initialize_memory\<close> computes for one declared area.\<close>

definition area_request :: "int \<times> int \<Rightarrow> int \<times> int" where
  "area_request area =
    (case area of (address, sz) \<Rightarrow>
       (let sz = align_address sz + PAGE_SIZE;
            address_aligned = align_address address
        in (address_aligned, sz)))"

fun map_areas ::
  "'e engine \<Rightarrow> ('e, 'w) session \<Rightarrow> (int \<times> int) list \<Rightarrow> exn + ('e, 'w) session" where
  "map_areas U s [] = Inr s"
| "map_areas U s (area # rest) =
     (case memory_map U s (fst (area_request area)) (snd (area_request area)) (Some UC_PROT_ALL) of
        Inl ex \<Rightarrow> Inl ex
      | Inr s' \<Rightarrow> map_areas U s' rest)"

fun write_contents ::
  "'e engine \<Rightarrow> ('e, 'w) session \<Rightarrow> (int \<times> string) list \<Rightarrow> exn + ('e, 'w) session" where
  "write_contents U s [] = Inr s"
| "write_contents U s ((address, content) # rest) =
     (case write_memory U s address content of
        Inl ex \<Rightarrow> Inl ex
      | Inr (s', _) \<Rightarrow> write_contents U s' rest)"

text \<open>The two loops that end \<^verbatim>\<open>__initialize_memory\<close>: map every area, then write every content.\<close>

definition commit_areas :: "'e engine \<Rightarrow> ('e, 'w) session \<Rightarrow> exn + ('e, 'w) session" where
  "commit_areas U s =
    (case map_areas U s (memory_areas s) of
       Inl ex \<Rightarrow> Inl ex
     | Inr s3 \<Rightarrow> write_contents U s3 (memory_contents s3))"

text \<open>Containment and overlap of regions given as base and size.\<close>

definition region_contains :: "int \<times> int \<Rightarrow> int \<times> int \<Rightarrow> bool" where
  "region_contains r a = (fst r \<le> fst a \<and> fst a + snd a \<le> fst r + snd r)"

definition regions_overlap :: "int \<times> int \<Rightarrow> int \<times> int \<Rightarrow> bool" where
  "regions_overlap r1 r2 = (fst r1 < fst r2 + snd r2 \<and> fst r2 < fst r1 + snd r1)"

definition initialize_memory :: "'e engine \<Rightarrow> ('e, 'w) session \<Rightarrow> exn + ('e, 'w) session" where
  "initialize_memory U s =
    (let stack_sz = stack_size s * PAGE_SIZE in
     case memory_map U s (stack s) stack_sz None of
       Inl ex \<Rightarrow> Inl ex
     | Inr s1 \<Rightarrow>
     (case write_memory U s1 (stack s1) (replicate (nat stack_sz) (CHR 0x00)) of
       Inl ex \<Rightarrow> Inl ex
     | Inr (s2, _) \<Rightarrow>
     (let sp = stack s2 + stack_size s2 * PAGE_SIZE in
      case uc s2 of
        None \<Rightarrow> Inl (AttributeError ''reg_write'')
      | Some e \<Rightarrow>
      (case REG_SP s2 of
        None \<Rightarrow> Inl (AttributeError ''REG_SP'')
      | Some r \<Rightarrow>
      (case uc_reg_write U e r sp of
        Inl msg \<Rightarrow> Inl (UcError msg)
      | Inr e' \<Rightarrow>
        commit_areas U (s2\<lparr>uc := Some e'\<rparr>))))))"

subsection \<open>Register names\<close>

text \<open>\<^verbatim>\<open>d.get(key, default)\<close> on a dictionary written as an association list.\<close>

definition dict_get :: "('k \<times> 'v) list \<Rightarrow> 'k \<Rightarrow> 'v \<Rightarrow> 'v" where
  "dict_get d key dflt = (case map_of d key of None \<Rightarrow> dflt | Some v \<Rightarrow> v)"

text \<open>\<^verbatim>\<open>d[key] = value\<close>: an existing key keeps its place, a new one goes last.\<close>

fun dict_set :: "('k \<times> 'v) list \<Rightarrow> 'k \<Rightarrow> 'v \<Rightarrow> ('k \<times> 'v) list" where
  "dict_set [] key v = [(key, v)]"
| "dict_set ((k, v') # rest) key v =
     (if k = key then (key, v) # rest else (k, v') # dict_set rest key v)"

definition mips_reg_map :: "(string \<times> reg_id) list" where
  "mips_reg_map =
    [(''zero'', UC ''UC_MIPS_REG_ZERO''), (''at'', UC ''UC_MIPS_REG_AT''),
     (''v0'', UC ''UC_MIPS_REG_V0''), (''v1'', UC ''UC_MIPS_REG_V1''),
     (''a0'', UC ''UC_MIPS_REG_A0''), (''a1'', UC ''UC_MIPS_REG_A1''),
     (''a2'', UC ''UC_MIPS_REG_A2''), (''a3'', UC ''UC_MIPS_REG_A3''),
     (''t0'', UC ''UC_MIPS_REG_T0''), (''t1'', UC ''UC_MIPS_REG_T1''),
     (''t2'', UC ''UC_MIPS_REG_T2''), (''t3'', UC ''UC_MIPS_REG_T3''),
     (''t4'', UC ''UC_MIPS_REG_T4''), (''t5'', UC ''UC_MIPS_REG_T5''),
     (''t6'', UC ''UC_MIPS_REG_T6''), (''t7'', UC ''UC_MIPS_REG_T7''),
     (''s0'', UC ''UC_MIPS_REG_S0''), (''s1'', UC ''UC_MIPS_REG_S1''),
     (''s2'', UC ''UC_MIPS_REG_S2''), (''s3'', UC ''UC_MIPS_REG_S3''),
     (''s4'', UC ''UC_MIPS_REG_S4''), (''s5'', UC ''UC_MIPS_REG_S5''),
     (''s6'', UC ''UC_MIPS_REG_S6''), (''s7'', UC ''UC_MIPS_REG_S7''),
     (''t8'', UC ''UC_MIPS_REG_T8''), (''t9'', UC ''UC_MIPS_REG_T9''),
     (''k0'', UC ''UC_MIPS_REG_K0''), (''k1'', UC ''UC_MIPS_REG_K1''),
     (''gp'', UC ''UC_MIPS_REG_GP''), (''sp'', UC ''UC_MIPS_REG_SP''),
     (''fp'', UC ''UC_MIPS_REG_FP''), (''ra'', UC ''UC_MIPS_REG_RA''),
     (''hi'', UC ''UC_MIPS_REG_HI''), (''lo'', UC ''UC_MIPS_REG_LO''),
     (''pc'', UC ''UC_MIPS_REG_PC'')]"

definition arm64_reg_map :: "(string \<times> reg_id) list" where
  "arm64_reg_map =
    [(''r0'', UC ''UC_ARM64_REG_X0''), (''r1'', UC ''UC_ARM64_REG_X1''),
     (''r2'', UC ''UC_ARM64_REG_X2''), (''r3'', UC ''UC_ARM64_REG_X3''),
     (''r4'', UC ''UC_ARM64_REG_X4''), (''r5'', UC ''UC_ARM64_REG_X5''),
     (''r6'', UC ''UC_ARM64_REG_X6''), (''r7'', UC ''UC_ARM64_REG_X7''),
     (''r8'', UC ''UC_ARM64_REG_X8''), (''r9'', UC ''UC_ARM64_REG_X9''),
     (''r10'', UC ''UC_ARM64_REG_X10''), (''r11'', UC ''UC_ARM64_REG_X11''),
     (''r12'', UC ''UC_ARM64_REG_X12''), (''r13'', UC ''UC_ARM64_REG_X13''),
     (''r14'', UC ''UC_ARM64_REG_X14''), (''r15'', UC ''UC_ARM64_REG_X15''),
     (''r16'', UC ''UC_ARM64_REG_X16''), (''r17'', UC ''UC_ARM64_REG_X17''),
     (''r18'', UC ''UC_ARM64_REG_X18''), (''r19'', UC ''UC_ARM64_REG_X19''),
     (''r20'', UC ''UC_ARM64_REG_X20''), (''r21'', UC ''UC_ARM64_REG_X21''),
     (''r22'', UC ''UC_ARM64_REG_X22''), (''r23'', UC ''UC_ARM64_REG_X23''),
     (''r24'', UC ''UC_ARM64_REG_X24''), (''r25'', UC ''UC_ARM64_REG_X25''),
     (''r26'', UC ''UC_ARM64_REG_X26''), (''r27'', UC ''UC_ARM64_REG_X27''),
     (''r28'', UC ''UC_ARM64_REG_X28''), (''r29'', UC ''UC_ARM64_REG_X29''),
     (''r30'', UC ''UC_ARM64_REG_X30''), (''r31'', UC ''UC_ARM64_REG_SP''),
     (''sp'', UC ''UC_ARM64_REG_SP''), (''pc'', UC ''UC_ARM64_REG_PC'')]"

definition x64_reg_map :: "(string \<times> reg_id) list" where
  "x64_reg_map =
    [(''rax'', UC ''UC_X86_REG_RAX''), (''rbx'', UC ''UC_X86_REG_RBX''),
     (''rcx'', UC ''UC_X86_REG_RCX''), (''rdx'', UC ''UC_X86_REG_RDX''),
     (''rdi'', UC ''UC_X86_REG_RSI''), (''rsi'', UC ''UC_X86_REG_RDI''),
     (''rbp'', UC ''UC_X86_REG_RBP''), (''rsp'', UC ''UC_X86_REG_RSP''),
     (''rip'', UC ''UC_X86_REG_RIP''), (''r8'', UC ''UC_X86_REG_R8''),
     (''r9'', UC ''UC_X86_REG_R9''), (''r10'', UC ''UC_X86_REG_R10''),
     (''r11'', UC ''UC_X86_REG_R11''), (''r12'', UC ''UC_X86_REG_R12''),
     (''r13'', UC ''UC_X86_REG_R13''), (''r14'', UC ''UC_X86_REG_R14''),
     (''r15'', UC ''UC_X86_REG_R15'')]"

definition arm_reg_map :: "(string \<times> reg_id) list" where
  "arm_reg_map =
    [(''r0'', UC ''UC_ARM64_REG_W0''), (''r1'', UC ''UC_ARM64_REG_W1''),
     (''r2'', UC ''UC_ARM64_REG_W2''), (''r3'', UC ''UC_ARM64_REG_W3''),
     (''r4'', UC ''UC_ARM64_REG_W4''), (''r5'', UC ''UC_ARM64_REG_W5''),
     (''r6'', UC ''UC_ARM64_REG_W6''), (''r7'', UC ''UC_ARM64_REG_W7''),
     (''r8'', UC ''UC_ARM64_REG_W8''), (''r9'', UC ''UC_ARM64_REG_W9''),
     (''r10'', UC ''UC_ARM64_REG_W10''), (''r11'', UC ''UC_ARM64_REG_W11''),
     (''r12'', UC ''UC_ARM64_REG_W12''), (''r13'', UC ''UC_ARM64_REG_W13''),
     (''r14'', UC ''UC_ARM64_REG_W14''), (''r15'', UC ''UC_ARM64_REG_W15''),
     (''r16'', UC ''UC_ARM64_REG_W16''), (''r17'', UC ''UC_ARM64_REG_W17''),
     (''r18'', UC ''UC_ARM64_REG_W18''), (''r19'', UC ''UC_ARM64_REG_W19''),
     (''r20'', UC ''UC_ARM64_REG_W20''), (''r21'', UC ''UC_ARM64_REG_W21''),
     (''r22'', UC ''UC_ARM64_REG_W22''), (''r23'', UC ''UC_ARM64_REG_W23''),
     (''r24'', UC ''UC_ARM64_REG_W24''), (''r25'', UC ''UC_ARM64_REG_W25''),
     (''r26'', UC ''UC_ARM64_REG_W26''), (''r27'', UC ''UC_ARM64_REG_W27''),
     (''r28'', UC ''UC_ARM64_REG_W28''), (''r29'', UC ''UC_ARM64_REG_W29''),
     (''r30'', UC ''UC_ARM64_REG_W30''), (''r31'', UC ''UC_ARM64_REG_SP''),
     (''sp'', UC ''UC_ARM64_REG_SP''), (''pc'', UC ''UC_ARM64_REG_PC'')]"

text \<open>
  \<^verbatim>\<open>_reg_map\<close>: the table is chosen by architecture and mode, and the name is looked up
  with \<^verbatim>\<open>reg_map.get(reg_name, 0x11223344)\<close>. Where no branch binds the table it is
  still \<^verbatim>\<open>None\<close>, and the lookup raises \<^verbatim>\<open>AttributeError\<close>.
\<close>

definition reg_map :: "('e, 'w) session \<Rightarrow> string \<Rightarrow> exn + reg_id" where
  "reg_map s reg_name =
    (if architecture s = Some UC_ARCH_MIPS then
       Inr (dict_get mips_reg_map reg_name (REG_LITERAL 0x11223344))
     else if architecture s = Some UC_ARCH_ARM64 then
       Inr (dict_get arm64_reg_map reg_name (REG_LITERAL 0x11223344))
     else if architecture s = Some UC_ARCH_X86 then
       (if mode s = Some UC_MODE_16 then Inl (PyException ''Register map not implemented'')
        else if mode s = Some UC_MODE_32 then Inl (PyException ''Register map not implemented'')
        else if mode s = Some UC_MODE_64 then
          Inr (dict_get x64_reg_map reg_name (REG_LITERAL 0x11223344))
        else Inl (AttributeError ''get''))
     else if architecture s = Some UC_ARCH_ARM then
       (if mode s = Some UC_MODE_ARM then
          Inr (dict_get arm_reg_map reg_name (REG_LITERAL 0x11223344))
        else if mode s = Some UC_MODE_THUMB then
          Inl (PyException ''Register map for ARM thumb-mode not implemented'')
        else Inl (AttributeError ''get''))
     else Inl (PyException ''Register map not implemented''))"

definition read_register :: "'e engine \<Rightarrow> ('e, 'w) session \<Rightarrow> string \<Rightarrow> exn + int" where
  "read_register U s reg_name =
    (case reg_map s reg_name of
       Inl ex \<Rightarrow> Inl ex
     | Inr reg_idx \<Rightarrow>
        (case uc s of
           None \<Rightarrow> Inl (AttributeError ''reg_read'')
         | Some e \<Rightarrow>
            (case uc_reg_read U e reg_idx of
               Inl msg \<Rightarrow> Inl (UcError msg)
             | Inr reg_val \<Rightarrow> Inr reg_val)))"

definition write_register ::
  "'e engine \<Rightarrow> ('e, 'w) session \<Rightarrow> string \<Rightarrow> int \<Rightarrow> exn + ('e, 'w) session" where
  "write_register U s register v =
    (case reg_map s register of
       Inl ex \<Rightarrow> Inl ex
     | Inr reg_idx \<Rightarrow>
        (case uc s of
           None \<Rightarrow> Inl (AttributeError ''reg_write'')
         | Some e \<Rightarrow>
            (case uc_reg_write U e reg_idx v of
               Inl msg \<Rightarrow> Inl (UcError msg)
             | Inr e' \<Rightarrow> Inr (s\<lparr>uc := Some e'\<rparr>))))"

definition init_register :: "('e, 'w) session \<Rightarrow> string \<Rightarrow> int \<Rightarrow> ('e, 'w) session" where
  "init_register s register v = s\<lparr>regs := dict_set (regs s) register v\<rparr>"

subsection \<open>The register dump\<close>

text \<open>
  \<^verbatim>\<open>__show_regs\<close> reads a fixed list of registers and logs them; the model returns the
  values read. An engine error becomes a \<^verbatim>\<open>PimpMyRideException\<close>. In 16-bit x86
  mode the log line names a variable that was never bound.
\<close>

definition mips_shown :: "reg_id list" where
  "mips_shown =
    [UC ''UC_MIPS_REG_ZERO'', UC ''UC_MIPS_REG_AT'', UC ''UC_MIPS_REG_V0'',
     UC ''UC_MIPS_REG_V1'', UC ''UC_MIPS_REG_A0'', UC ''UC_MIPS_REG_A1'',
     UC ''UC_MIPS_REG_A2'', UC ''UC_MIPS_REG_A3'', UC ''UC_MIPS_REG_T0'',
     UC ''UC_MIPS_REG_T1'', UC ''UC_MIPS_REG_T2'', UC ''UC_MIPS_REG_T3'',
     UC ''UC_MIPS_REG_T4'', UC ''UC_MIPS_REG_T5'', UC ''UC_MIPS_REG_T6'',
     UC ''UC_MIPS_REG_T7'', UC ''UC_MIPS_REG_S0'', UC ''UC_MIPS_REG_S1'',
     UC ''UC_MIPS_REG_S2'', UC ''UC_MIPS_REG_S3'', UC ''UC_MIPS_REG_S4'',
     UC ''UC_MIPS_REG_S5'', UC ''UC_MIPS_REG_S6'', UC ''UC_MIPS_REG_S7'',
     UC ''UC_MIPS_REG_GP'', UC ''UC_MIPS_REG_SP'', UC ''UC_MIPS_REG_PC'',
     UC ''UC_MIPS_REG_RA'', UC ''UC_MIPS_REG_CC7'']"

definition x86_16_shown :: "reg_id list" where
  "x86_16_shown =
    [UC ''UC_X86_REG_AX'', UC ''UC_X86_REG_BX'', UC ''UC_X86_REG_CX'', UC ''UC_X86_REG_DX'',
     UC ''UC_X86_REG_SI'', UC ''UC_X86_REG_DI'', UC ''UC_X86_REG_BP'', UC ''UC_X86_REG_SP'',
     UC ''UC_X86_REG_PC'', UC ''UC_X86_REG_EFLAGS'']"

definition x86_32_shown :: "reg_id list" where
  "x86_32_shown =
    [UC ''UC_X86_REG_EAX'', UC ''UC_X86_REG_EBX'', UC ''UC_X86_REG_ECX'',
     UC ''UC_X86_REG_EDX'', UC ''UC_X86_REG_ESI'', UC ''UC_X86_REG_EDI'',
     UC ''UC_X86_REG_EBP'', UC ''UC_X86_REG_ESP'', UC ''UC_X86_REG_EIP'',
     UC ''UC_X86_REG_EFLAGS'']"

definition x86_64_shown :: "reg_id list" where
  "x86_64_shown =
    [UC ''UC_X86_REG_RAX'', UC ''UC_X86_REG_RBX'', UC ''UC_X86_REG_RCX'',
     UC ''UC_X86_REG_RDX'', UC ''UC_X86_REG_RSI'', UC ''UC_X86_REG_RDI'',
     UC ''UC_X86_REG_RBP'', UC ''UC_X86_REG_RSP'', UC ''UC_X86_REG_RIP'', UC ''UC_X86_REG_R8'',
     UC ''UC_X86_REG_R9'', UC ''UC_X86_REG_R10'', UC ''UC_X86_REG_R11'', UC ''UC_X86_REG_R12'',
     UC ''UC_X86_REG_R13'', UC ''UC_X86_REG_R14'', UC ''UC_X86_REG_R15'',
     UC ''UC_X86_REG_EFLAGS'']"

fun read_regs :: "'e engine \<Rightarrow> 'e \<Rightarrow> reg_id list \<Rightarrow> string + int list" where
  "read_regs U e [] = Inr []"
| "read_regs U e (r # rs) =
     (case uc_reg_read U e r of
        Inl msg \<Rightarrow> Inl msg
      | Inr v \<Rightarrow> (case read_regs U e rs of Inl msg \<Rightarrow> Inl msg | Inr vs \<Rightarrow> Inr (v # vs)))"

definition dump_regs :: "'e engine \<Rightarrow> ('e, 'w) session \<Rightarrow> reg_id list \<Rightarrow> exn + int list" where
  "dump_regs U s ids =
    (case uc s of
       None \<Rightarrow> Inl (AttributeError ''reg_read'')
     | Some e \<Rightarrow>
        (case read_regs U e ids of
           Inl msg \<Rightarrow> Inl (PimpMyRideException msg)
         | Inr vs \<Rightarrow> Inr vs))"

definition show_regs :: "'e engine \<Rightarrow> ('e, 'w) session \<Rightarrow> exn + int list" where
  "show_regs U s =
    (if architecture s = Some UC_ARCH_MIPS then dump_regs U s mips_shown
     else if architecture s = Some UC_ARCH_X86 then
       (if mode s = Some UC_MODE_16 then
          (case dump_regs U s x86_16_shown of
             Inl ex \<Rightarrow> Inl ex
           | Inr vs \<Rightarrow> Inl (NameError ''eip''))
        else if mode s = Some UC_MODE_32 then dump_regs U s x86_32_shown
        else if mode s = Some UC_MODE_64 then dump_regs U s x86_64_shown
        else Inl (NameError ''eflags''))
     else Inr [])"

subsection \<open>Hooks and preset registers\<close>

definition add_code_hook :: "('e, 'w) session \<Rightarrow> hook_fn \<Rightarrow> ('e, 'w) session" where
  "add_code_hook s callback_fn = s\<lparr>hooks := dict_set (hooks s) UC_HOOK_CODE callback_fn\<rparr>"

definition trace_instructions :: "('e, 'w) session \<Rightarrow> ('e, 'w) session" where
  "trace_instructions s = add_code_hook s CODE_CALLBACK"

fun add_hooks :: "'e engine \<Rightarrow> 'e \<Rightarrow> (int \<times> hook_fn) list \<Rightarrow> exn + 'e" where
  "add_hooks U e [] = Inr e"
| "add_hooks U e ((hook, cb) # rest) =
     (case uc_hook_add U e hook cb of
        Inl msg \<Rightarrow> Inl (UcError msg)
      | Inr e' \<Rightarrow> add_hooks U e' rest)"

definition initialize_hooks :: "'e engine \<Rightarrow> ('e, 'w) session \<Rightarrow> exn + ('e, 'w) session" where
  "initialize_hooks U s =
    (case uc s of
       None \<Rightarrow> (if hooks s = [] then Inr s else Inl (AttributeError ''hook_add''))
     | Some e \<Rightarrow>
        (case add_hooks U e (hooks s) of
           Inl ex \<Rightarrow> Inl ex
         | Inr e' \<Rightarrow> Inr (s\<lparr>uc := Some e'\<rparr>)))"

fun write_registers ::
  "'e engine \<Rightarrow> ('e, 'w) session \<Rightarrow> (string \<times> int) list \<Rightarrow> exn + ('e, 'w) session" where
  "write_registers U s [] = Inr s"
| "write_registers U s ((reg, v) # rest) =
     (case write_register U s reg v of
        Inl ex \<Rightarrow> Inl ex
      | Inr s' \<Rightarrow> write_registers U s' rest)"

definition initialize_registers :: "'e engine \<Rightarrow> ('e, 'w) session \<Rightarrow> exn + ('e, 'w) session" where
  "initialize_registers U s = write_registers U s (regs s)"

subsection \<open>init and start\<close>

text \<open>
  \<^verbatim>\<open>init\<close> checks the parameters, creates a new engine instance and a new disassembler,
  and commits memory, hooks and registers to the new engine.
\<close>

definition init :: "'e engine \<Rightarrow> ('e, 'w) session \<Rightarrow> exn + ('e, 'w) session" where
  "init U s =
    (case architecture s of
       None \<Rightarrow> Inl (PimpMyRideException ''Architecture not specified'')
     | Some arch \<Rightarrow>
     if arch = 0 then Inl (PimpMyRideException ''Architecture not specified'')
     else (case mode s of
       None \<Rightarrow> Inl (PimpMyRideException ''Mode not specified'')
     | Some md \<Rightarrow>
     if start_address s = None then Inl (PimpMyRideException ''Start address not specified'')
     else if return_address s = None then Inl (PimpMyRideException ''Return address not specified'')
     else if length (memory_areas s) = 0 then Inl (PimpMyRideException ''No memory areas specified'')
     else if length (memory_contents s) = 0 then
       Inl (PimpMyRideException ''No memory contents specified'')
     else (case Uc U arch md of
       Inl msg \<Rightarrow> Inl (UcError msg)
     | Inr e \<Rightarrow>
     (case Cs U (cs_arch s) (cs_mode s) of
       Some msg \<Rightarrow> Inl (CsError msg)
     | None \<Rightarrow>
     (case initialize_memory U (s\<lparr>uc := Some e, cs := Some (cs_arch s, cs_mode s)\<rparr>) of
       Inl ex \<Rightarrow> Inl ex
     | Inr s1 \<Rightarrow>
     (case initialize_hooks U s1 of
       Inl ex \<Rightarrow> Inl ex
     | Inr s2 \<Rightarrow> initialize_registers U s2))))))"



subsection \<open>The trace callback\<close>

definition show_disasm_inst ::
  "'e engine \<Rightarrow> ('e, 'w) session \<Rightarrow> string \<Rightarrow> int \<Rightarrow> exn + (string \<times> string) list" where
  "show_disasm_inst U s opcodes addr =
    (case cs s of
       None \<Rightarrow> Inl (AttributeError ''disasm'')
     | Some h \<Rightarrow>
        (case cs_disasm U h opcodes addr of
           Inl msg \<Rightarrow> Inl (PimpMyRideException msg)
         | Inr disasm \<Rightarrow> Inr disasm))"

text \<open>The loop over \<^verbatim>\<open>breakpoints_callback\<close>: it stops at the first callback that raises.\<close>

fun run_callbacks :: "(int \<Rightarrow> 'w \<Rightarrow> 'w \<times> exn option) list \<Rightarrow> int \<Rightarrow> 'w \<Rightarrow> 'w \<times> exn option" where
  "run_callbacks [] address w = (w, None)"
| "run_callbacks (cb # rest) address w =
     (case cb address w of
        (w', Some ex) \<Rightarrow> (w', Some ex)
      | (w', None) \<Rightarrow> run_callbacks rest address w')"

text \<open>How the callback obtains the new program counter; \<open>Inr None\<close> leaves it unbound.\<close>

definition new_pc_of :: "'e engine \<Rightarrow> ('e, 'w) session \<Rightarrow> exn + int option" where
  "new_pc_of U s =
    (if architecture s = Some UC_ARCH_MIPS then map_sum id Some (read_register U s ''pc'')
     else if architecture s = Some UC_ARCH_X86 then
       (if mode s = Some UC_MODE_16 then Inl (PyException ''get PC map not implemented'')
        else if mode s = Some UC_MODE_32 then Inl (PyException ''get PC not implemented'')
        else if mode s = Some UC_MODE_64 then map_sum id Some (read_register U s ''rip'')
        else Inr None)
     else Inl (PyException ''get PC not implemented for current architecture''))"

text \<open>
  \<^verbatim>\<open>__code_callback(_uc, address, size, user_data)\<close>; the engine passes itself as
  \<^verbatim>\<open>_uc\<close>, which is the session's engine. The result is the exception that leaves the
  callback, if any, with the session and the callbacks' state as they are then. An engine
  error inside the \<^verbatim>\<open>try\<close> block is caught and logged.
\<close>

definition code_callback ::
  "'e engine \<Rightarrow> ('e, 'w) session \<Rightarrow> 'w \<Rightarrow> int \<Rightarrow> int \<Rightarrow> exn option \<times> ('e, 'w) session \<times> 'w" where
  "code_callback U s w address sz =
    (case show_regs U s of
       Inl ex \<Rightarrow> (Some ex, s, w)
     | Inr vs \<Rightarrow>
     (case uc s of
       None \<Rightarrow> (Some (AttributeError ''mem_read''), s, w)
     | Some e \<Rightarrow>
     (case uc_mem_read U e address sz of
       Inl msg \<Rightarrow> (None, s, w)
     | Inr opcodes \<Rightarrow>
     (case show_disasm_inst U s opcodes address of
       Inl ex \<Rightarrow> (Some ex, s, w)
     | Inr disasm \<Rightarrow>
     (case new_pc_of U s of
       Inl (UcError msg) \<Rightarrow> (None, s, w)
     | Inl ex \<Rightarrow> (Some ex, s, w)
     | Inr pc \<Rightarrow>
     (case disasm of
       [] \<Rightarrow> (Some (IndexError ''list index out of range''), s, w)
     | d # ds \<Rightarrow>
     (case pc of
       None \<Rightarrow> (Some (NameError ''new_pc''), s, w)
     | Some new_pc \<Rightarrow>
       (let s = s\<lparr>start_address := Some new_pc\<rparr> in
        if address \<in> set (breakpoints s) then
          (case uc_emu_stop U e of
             Inl msg \<Rightarrow> (None, s, w)
           | Inr e' \<Rightarrow>
              (case run_callbacks (breakpoints_callback s) address w of
                 (w', Some (UcError msg)) \<Rightarrow> (None, s\<lparr>uc := Some e'\<rparr>, w')
               | (w', r) \<Rightarrow> (r, s\<lparr>uc := Some e'\<rparr>, w')))
        else (None, s, w)))))))))"

section \<open>The debug target of target/emulated\_target.py\<close>

subsection \<open>Byte strings: struct and hexadecimal text\<close>

text \<open>
  \<^verbatim>\<open>struct.pack(endian + pack_format, value)\<close> for the formats the session produces:
  the byte orders \<^verbatim>\<open><\<close> and \<^verbatim>\<open>>\<close> and the unsigned codes \<^verbatim>\<open>H\<close>,
  \<^verbatim>\<open>I\<close> and \<^verbatim>\<open>Q\<close>. A value outside the code's range is a \<^verbatim>\<open>struct.error\<close>; so
  is, in this model, every other format.
\<close>

definition fmt_size :: "char \<Rightarrow> nat option" where
  "fmt_size f =
    (if f = CHR ''H'' then Some 2
     else if f = CHR ''I'' then Some 4
     else if f = CHR ''Q'' then Some 8
     else None)"

fun le_bytes :: "nat \<Rightarrow> int \<Rightarrow> string" where
  "le_bytes 0 v = []"
| "le_bytes (Suc n) v = char_of (v mod 256) # le_bytes n (v div 256)"


definition struct_pack :: "char \<Rightarrow> char \<Rightarrow> int \<Rightarrow> exn + string" where
  "struct_pack en f v =
    (case fmt_size f of
       None \<Rightarrow> Inl (StructError ''bad char in struct format'')
     | Some n \<Rightarrow>
        if en \<noteq> CHR ''<'' \<and> en \<noteq> CHR ''>'' then Inl (StructError ''bad char in struct format'')
        else if v < 0 \<or> 256 ^ n \<le> v then Inl (StructError ''integer out of range'')
        else Inr (if en = CHR ''<'' then le_bytes n v else rev (le_bytes n v)))"



text \<open>\<^verbatim>\<open>s.encode("hex")\<close>: two lower-case hexadecimal digits for each byte.\<close>

definition hex_digit :: "nat \<Rightarrow> char" where
  "hex_digit n = ''0123456789abcdef'' ! (n mod 16)"

definition hex_encode :: "string \<Rightarrow> string" where
  "hex_encode bs = concat (map (\<lambda>c. [hex_digit (of_char c div 16), hex_digit (of_char c mod 16)]) bs)"



subsection \<open>The target object\<close>

definition TARGET_RUNNING :: int where
  "TARGET_RUNNING = 1"

definition TARGET_HALTED :: int where
  "TARGET_HALTED = 2"

definition CORE_REGISTER :: "(string \<times> int) list" where
  "CORE_REGISTER =
    [(''rax'', 0), (''rcx'', 1), (''rbx'', 2), (''rdx'', 3), (''rsi'', 4), (''rdi'', 5),
     (''rbp'', 6), (''rsp'', 7), (''r8'', 8), (''r9'', 9), (''r10'', 10), (''r11'', 11),
     (''r12'', 12), (''r13'', 13), (''r14'', 14), (''r15'', 15), (''rip'', 16)]"

record RegisterInfo =
  name :: string
  reg_num :: int
  gdb_xml_attrib :: "(string \<times> string) list"

text \<open>
  \<^verbatim>\<open>RegisterInfo(name, bitsize, reg_type, reg_group)\<close>; the number is
  \<^verbatim>\<open>CORE_REGISTER[name]\<close>, and every name of \<^verbatim>\<open>regs_general\<close> is a key of that
  table.
\<close>

definition RegisterInfo_new :: "string \<Rightarrow> string \<Rightarrow> string \<Rightarrow> string \<Rightarrow> RegisterInfo" where
  "RegisterInfo_new nm bitsize reg_type reg_group =
    \<lparr>name = nm, reg_num = dict_get CORE_REGISTER nm 0,
     gdb_xml_attrib = [(''name'', nm), (''bitsize'', bitsize), (''type'', reg_type),
                       (''group'', reg_group)]\<rparr>"

definition regs_general :: "RegisterInfo list" where
  "regs_general =
    [RegisterInfo_new ''rax'' ''32'' ''int'' ''general'',
     RegisterInfo_new ''rcx'' ''32'' ''int'' ''general'',
     RegisterInfo_new ''rbx'' ''32'' ''int'' ''general'',
     RegisterInfo_new ''rdx'' ''32'' ''int'' ''general'',
     RegisterInfo_new ''rsi'' ''32'' ''int'' ''general'',
     RegisterInfo_new ''rdi'' ''32'' ''int'' ''general'',
     RegisterInfo_new ''rbp'' ''32'' ''int'' ''general'',
     RegisterInfo_new ''rsp'' ''32'' ''int'' ''general'',
     RegisterInfo_new ''r8'' ''32'' ''int'' ''general'',
     RegisterInfo_new ''r9'' ''32'' ''int'' ''general'',
     RegisterInfo_new ''r10'' ''32'' ''int'' ''general'',
     RegisterInfo_new ''r11'' ''32'' ''int'' ''general'',
     RegisterInfo_new ''r12'' ''32'' ''int'' ''general'',
     RegisterInfo_new ''r13'' ''32'' ''data_ptr'' ''general'',
     RegisterInfo_new ''r14'' ''32'' ''int'' ''general'',
     RegisterInfo_new ''r15'' ''32'' ''code_ptr'' ''general'',
     RegisterInfo_new ''rip'' ''32'' ''int'' ''general'']"

text \<open>
  The attributes of \<^verbatim>\<open>Target\<close> that the adapter's methods read or write. The session
  (\<^verbatim>\<open>self.emu\<close>) is passed next to the target, since the session's breakpoint callbacks
  act on the target.
\<close>

record target =
  part_number :: string
  endian :: char
  tgt_pack_format :: char
  tgt_step :: int
  state :: "int option"
  register_list :: "RegisterInfo list option"

definition breakpoint_callback :: "target \<Rightarrow> int \<Rightarrow> target" where
  "breakpoint_callback t address = t\<lparr>state := Some TARGET_HALTED\<rparr>"

text \<open>
  \<^verbatim>\<open>EmulatedTargetX86_64(emu)\<close>: the constructor registers the bound method
  \<^verbatim>\<open>self.breakpoint_callback\<close> with the session and copies the pack settings.
\<close>

definition EmulatedTargetX86_64 ::
  "('e, target) session \<Rightarrow> exn + (('e, target) session \<times> target)" where
  "EmulatedTargetX86_64 emu =
    (let emu' = add_breakpoint_callback emu (\<lambda>address t. (breakpoint_callback t address, None)) in
     case pack_endian emu' of
       None \<Rightarrow> Inl (AttributeError ''pack_endian'')
     | Some en \<Rightarrow>
     (case pack_format emu' of
       None \<Rightarrow> Inl (AttributeError ''pack_format'')
     | Some f \<Rightarrow>
     (case step emu' of
       None \<Rightarrow> Inl (AttributeError ''step'')
     | Some st \<Rightarrow>
        Inr (emu', \<lparr>part_number = '''', endian = en, tgt_pack_format = f, tgt_step = st,
                    state = None, register_list = None\<rparr>))))"

definition target_init ::
  "'e engine \<Rightarrow> ('e, target) session \<Rightarrow> target \<Rightarrow> bool \<Rightarrow> bool
    \<Rightarrow> exn + (('e, target) session \<times> target)" where
  "target_init U emu t initial_setup bus_accessible =
    (case init U emu of
       Inl ex \<Rightarrow> Inl ex
     | Inr emu' \<Rightarrow>
        Inr (emu', if bus_accessible then t\<lparr>register_list := Some regs_general\<rparr> else t))"

subsection \<open>The register context\<close>

fun context_loop ::
  "'e engine \<Rightarrow> ('e, 'w) session \<Rightarrow> target \<Rightarrow> RegisterInfo list \<Rightarrow> string \<Rightarrow> exn + string" where
  "context_loop U emu t [] resp = Inr resp"
| "context_loop U emu t (reg # rest) resp =
     (case read_register U emu (name reg) of
        Inl ex \<Rightarrow> Inl ex
      | Inr regValue \<Rightarrow>
     (case struct_pack (endian t) (tgt_pack_format t) regValue of
        Inl ex \<Rightarrow> Inl ex
      | Inr packed \<Rightarrow> context_loop U emu t rest (resp @ hex_encode packed)))"

definition getRegisterContext :: "'e engine \<Rightarrow> ('e, 'w) session \<Rightarrow> target \<Rightarrow> exn + string" where
  "getRegisterContext U emu t =
    (case register_list t of
       None \<Rightarrow> Inl (AttributeError ''register_list'')
     | Some rl \<Rightarrow> context_loop U emu t rl '''')"



section \<open>A simulated engine\<close>

text \<open>
  A small engine on which the properties below are exercised at concrete sessions:
  a register file, a list of mapped regions, the writes made so far, the installed hooks
  and a stop flag. It maps page-aligned regions that do not overlap an existing one, and
  reads and writes only mapped memory. Its disassembler decodes one instruction from any
  bytes, naming \<^verbatim>\<open>ret\<close> for the byte \<open>0xC3\<close>.
\<close>

record sim =
  mapped :: "(int \<times> int) list"
  written :: "(int \<times> string) list"
  regfile :: "(reg_id \<times> int) list"
  hooked :: "(int \<times> hook_fn) list"
  stopped :: bool

definition sim_new :: sim where
  "sim_new = \<lparr>mapped = [], written = [], regfile = [], hooked = [], stopped = False\<rparr>"

definition sim_overlaps :: "sim \<Rightarrow> int \<Rightarrow> int \<Rightarrow> bool" where
  "sim_overlaps e a sz = list_ex (\<lambda>(b, n). a < b + n \<and> b < a + sz) (mapped e)"

definition sim_covers :: "sim \<Rightarrow> int \<Rightarrow> int \<Rightarrow> bool" where
  "sim_covers e a sz = list_ex (\<lambda>(b, n). b \<le> a \<and> a + sz \<le> b + n) (mapped e)"

definition sim_byte :: "sim \<Rightarrow> int \<Rightarrow> char" where
  "sim_byte e a =
    (case filter (\<lambda>(b, bs). b \<le> a \<and> a < b + int (length bs)) (written e) of
       [] \<Rightarrow> CHR 0x00
     | (b, bs) # _ \<Rightarrow> bs ! nat (a - b))"

definition sim_engine :: "sim engine" where
  "sim_engine =
    \<lparr>Uc = (\<lambda>arch md. Inr sim_new),
     uc_mem_map = (\<lambda>e a sz perm.
        if \<not> (0 < sz \<and> a mod 0x1000 = 0 \<and> sz mod 0x1000 = 0) then Inl ''Invalid argument (UC_ERR_ARG)''
        else if sim_overlaps e a sz then Inl ''Invalid memory mapping (UC_ERR_MAP)''
        else Inr (e\<lparr>mapped := mapped e @ [(a, sz)]\<rparr>)),
     uc_mem_read = (\<lambda>e a sz.
        if sz < 0 \<or> \<not> sim_covers e a sz then Inl ''Invalid memory read (UC_ERR_READ_UNMAPPED)''
        else Inr (map (\<lambda>i. sim_byte e (a + int i)) [0..<nat sz])),
     uc_mem_write = (\<lambda>e a bs.
        if \<not> sim_covers e a (int (length bs)) then Inl ''Invalid memory write (UC_ERR_WRITE_UNMAPPED)''
        else Inr (e\<lparr>written := (a, bs) # written e\<rparr>)),
     uc_reg_read = (\<lambda>e r. Inr (dict_get (regfile e) r 0)),
     uc_reg_write = (\<lambda>e r v. Inr (e\<lparr>regfile := (r, v mod 2 ^ 64) # regfile e\<rparr>)),
     uc_hook_add = (\<lambda>e h cb. Inr (e\<lparr>hooked := hooked e @ [(h, cb)]\<rparr>)),
     uc_emu_stop = (\<lambda>e. Inr (e\<lparr>stopped := True\<rparr>)),
     Cs = (\<lambda>arch md. None),
     cs_disasm = (\<lambda>h bs addr. case bs of
        [] \<Rightarrow> Inr []
      | b # _ \<Rightarrow> Inr [(if b = CHR 0xC3 then ''ret'' else ''insn'', [])])\<rparr>"

section \<open>Example sessions\<close>

text \<open>
  The session that the constructor returns for a 64-bit x86 target whose requested stack
  base \<open>0x70000123\<close> is not page-aligned, with a stack of four pages.
\<close>

definition x64_fresh :: "(sim, target) session" where
  "x64_fresh =
    \<lparr>uc = None, cs = None, code = None, start_address = None, return_address = None,
     memory_areas = [], memory_contents = [],
     stack = 0x70000000, stack_size = 4,
     compiler = COMPILE_GCC, breakpoints = [], breakpoints_callback = [],
     architecture = Some UC_ARCH_X86, mode = Some UC_MODE_64,
     cs_arch = CS_ARCH_X86, cs_mode = CS_MODE_64, regs = [], hooks = [],
     pack_endian = Some CHR ''<'', step = Some 8, pack_format = Some CHR ''Q'',
     REG_PC = Some (UC ''UC_X86_REG_RIP''), REG_SP = Some (UC ''UC_X86_REG_RSP''),
     REG_RA = Some (REG_LITERAL 0), REG_RES = Some (UC ''UC_X86_REG_RAX''),
     REG_ARGS = Some [UC ''UC_X86_REG_RDI'', UC ''UC_X86_REG_RSI'', UC ''UC_X86_REG_RDX'',
                      UC ''UC_X86_REG_RCX'', UC ''UC_X86_REG_R8'', UC ''UC_X86_REG_R9'']\<rparr>"

text \<open>
  The same session after a code area of \<open>0x100\<close> bytes at \<open>0x1000\<close> holding a single
  \<^verbatim>\<open>ret\<close> was declared and the start and return addresses were set.
\<close>

definition x64_ready :: "(sim, target) session" where
  "x64_ready =
    x64_fresh\<lparr>start_address := Some 0x1000, return_address := Some 0x1001,
              memory_areas := [(0x1000, 0x100)], memory_contents := [(0x1000, [CHR 0xC3])]\<rparr>"

text \<open>
  The session \<open>x64_ready\<close> after \<^verbatim>\<open>init\<close> on the simulated engine: the stack and the
  page of the code area are mapped, the stack is zeroed, the \<^verbatim>\<open>ret\<close> is written and
  the stack pointer is preset.
\<close>

definition x64_live :: "(sim, target) session" where
  "x64_live =
    x64_ready\<lparr>uc := Some \<lparr>mapped = [(0x70000000, 0x4000), (0x1000, 0x1000)],
                           written = [(0x1000, [CHR 0xC3]),
                                      (0x70000000, replicate 16384 (CHR 0x00))],
                           regfile = [(UC ''UC_X86_REG_RSP'', 0x70004000)],
                           hooked = [], stopped = False\<rparr>,
              cs := Some (CS_ARCH_X86, CS_MODE_64)\<rparr>"

text \<open>The same declarations with two contiguous areas of one page each.\<close>

definition x64_contiguous :: "(sim, target) session" where
  "x64_contiguous = x64_ready\<lparr>memory_areas := [(0x1000, 0x1000), (0x2000, 0x1000)]\<rparr>"

section \<open>Notions used to state the properties\<close>

text \<open>The characters of which the keys of the register name tables are made.\<close>

definition lower_or_digit :: "char \<Rightarrow> bool" where
  "lower_or_digit c =
    (let n = (of_char c :: nat) in (97 \<le> n \<and> n \<le> 122) \<or> (48 \<le> n \<and> n \<le> 57))"

text \<open>The sessions for which \<^verbatim>\<open>_reg_map\<close> has a table.\<close>

definition has_reg_table :: "('e, 'w) session \<Rightarrow> bool" where
  "has_reg_table s =
    (architecture s = Some UC_ARCH_MIPS \<or> architecture s = Some UC_ARCH_ARM64
     \<or> (architecture s = Some UC_ARCH_X86 \<and> mode s = Some UC_MODE_64)
     \<or> (architecture s = Some UC_ARCH_ARM \<and> mode s = Some UC_MODE_ARM))"

text \<open>
  The register context of given engine registers: each is read from the engine, packed and
  written as hexadecimal text, in the order of the list.
\<close>

fun pack_regs :: "'e engine \<Rightarrow> 'e \<Rightarrow> target \<Rightarrow> reg_id list \<Rightarrow> string \<Rightarrow> exn + string" where
  "pack_regs U e t [] resp = Inr resp"
| "pack_regs U e t (r # rs) resp =
     (case uc_reg_read U e r of
        Inl msg \<Rightarrow> Inl (UcError msg)
      | Inr v \<Rightarrow>
     (case struct_pack (endian t) (tgt_pack_format t) v of
        Inl ex \<Rightarrow> Inl ex
      | Inr packed \<Rightarrow> pack_regs U e t rs (resp @ hex_encode packed)))"

text \<open>
  The debug target of the example session, as its constructor and \<^verbatim>\<open>init\<close> leave it.
\<close>

definition x64_target :: target where
  "x64_target =
    \<lparr>part_number = [], endian = CHR ''<'', tgt_pack_format = CHR ''Q'', tgt_step = 8,
     state = None, register_list = Some regs_general\<rparr>"


text \<open>
  A breakpoint callback of a user that leaves a mark in the target, so that the order of
  the calls can be read off the target afterwards.
\<close>

definition mark :: "string \<Rightarrow> int \<Rightarrow> target \<Rightarrow> target \<times> exn option" where
  "mark c address t = (t\<lparr>part_number := part_number t @ c\<rparr>, None)"

text \<open>
  The session \<open>x64_ready\<close> after the target was constructed on it, two marking callbacks
  were added, tracing was requested, \<^verbatim>\<open>init\<close> ran on the simulated engine and a
  breakpoint was set at the \<^verbatim>\<open>ret\<close>.
\<close>

definition x64_bp :: "(sim, target) session" where
  "x64_bp =
    x64_ready\<lparr>uc := Some \<lparr>mapped = [(0x70000000, 0x4000), (0x1000, 0x1000)],
                         written = [(0x1000, [CHR 0xC3]),
                                    (0x70000000, replicate 16384 (CHR 0x00))],
                         regfile = [(UC ''UC_X86_REG_RSP'', 0x70004000)],
                         hooked = [(UC_HOOK_CODE, CODE_CALLBACK)], stopped = False\<rparr>,
              cs := Some (CS_ARCH_X86, CS_MODE_64),
              breakpoints := [0x1000],
              breakpoints_callback :=
                [\<lambda>address t. (breakpoint_callback t address, None), mark ''a'', mark ''b''],
              hooks := [(UC_HOOK_CODE, CODE_CALLBACK)]\<rparr>"

text \<open>
  The same for a 32-bit ARM session whose code area holds a single \<^verbatim>\<open>bx lr\<close>, with
  the target's callback alone.
\<close>

definition arm_fresh :: "(sim, target) session" where
  "arm_fresh =
    \<lparr>uc = None, cs = None, code = None, start_address = None, return_address = None,
     memory_areas = [], memory_contents = [],
     stack = 0x70000000, stack_size = 4,
     compiler = COMPILE_GCC, breakpoints = [], breakpoints_callback = [],
     architecture = Some UC_ARCH_ARM, mode = Some UC_MODE_ARM,
     cs_arch = CS_ARCH_ARM, cs_mode = CS_MODE_ARM, regs = [], hooks = [],
     pack_endian = Some CHR ''<'', step = Some 4, pack_format = Some CHR ''I'',
     REG_PC = Some (UC ''UC_ARM_REG_PC''), REG_SP = Some (UC ''UC_ARM_REG_SP''),
     REG_RA = Some (UC ''UC_ARM_REG_LR''), REG_RES = Some (UC ''UC_ARM_REG_R0''),
     REG_ARGS = Some [UC ''UC_ARM_REG_R0'', UC ''UC_ARM_REG_R1'', UC ''UC_ARM_REG_R2'',
                      UC ''UC_ARM_REG_R3'']\<rparr>"

definition arm_bp :: "(sim, target) session" where
  "arm_bp =
    arm_fresh\<lparr>uc := Some \<lparr>mapped = [(0x70000000, 0x4000), (0x1000, 0x1000)],
                         written = [(0x1000, [CHR 0x1E, CHR 0xFF, CHR 0x2F, CHR 0xE1]),
                                    (0x70000000, replicate 16384 (CHR 0x00))],
                         regfile = [(UC ''UC_ARM_REG_SP'', 0x70004000)],
                         hooked = [(UC_HOOK_CODE, CODE_CALLBACK)], stopped = False\<rparr>,
              cs := Some (CS_ARCH_ARM, CS_MODE_ARM),
              start_address := Some 0x1000, return_address := Some 0x1004,
              memory_areas := [(0x1000, 0x100)],
              memory_contents := [(0x1000, [CHR 0x1E, CHR 0xFF, CHR 0x2F, CHR 0xE1])],
              breakpoints := [0x1000],
              breakpoints_callback := [\<lambda>address t. (breakpoint_callback t address, None)],
              hooks := [(UC_HOOK_CODE, CODE_CALLBACK)]\<rparr>"

definition arm_target :: target where
  "arm_target =
    \<lparr>part_number = [], endian = CHR ''<'', tgt_pack_format = CHR ''I'', tgt_step = 4,
     state = None, register_list = Some regs_general\<rparr>"

text \<open>
  The session \<open>x64_live\<close> after \<^verbatim>\<open>write_register\<close> stored a value under the name
  \<^verbatim>\<open>rax\<close> and another under the name \<^verbatim>\<open>rsi\<close>.
\<close>

definition x64_loaded :: "(sim, target) session" where
  "x64_loaded =
    x64_ready\<lparr>uc := Some \<lparr>mapped = [(0x70000000, 0x4000), (0x1000, 0x1000)],
                           written = [(0x1000, [CHR 0xC3]),
                                      (0x70000000, replicate 16384 (CHR 0x00))],
                           regfile = [(UC ''UC_X86_REG_RDI'', 7),
                                      (UC ''UC_X86_REG_RAX'', 0x1122334455667788),
                                      (UC ''UC_X86_REG_RSP'', 0x70004000)],
                           hooked = [], stopped = False\<rparr>,
              cs := Some (CS_ARCH_X86, CS_MODE_64)\<rparr>"

text \<open>
  A 32-bit x86 session as the constructor returns it, and the same session and its debug
  target after a code area holding a single \<^verbatim>\<open>ret\<close> was declared, the target was
  constructed and its \<^verbatim>\<open>init\<close> ran on the simulated engine.
\<close>

definition x86_32_fresh :: "(sim, target) session" where
  "x86_32_fresh =
    \<lparr>uc = None, cs = None, code = None, start_address = None, return_address = None,
     memory_areas = [], memory_contents = [],
     stack = 0x70000000, stack_size = 4,
     compiler = COMPILE_GCC, breakpoints = [], breakpoints_callback = [],
     architecture = Some UC_ARCH_X86, mode = Some UC_MODE_32,
     cs_arch = CS_ARCH_X86, cs_mode = CS_MODE_32, regs = [], hooks = [],
     pack_endian = Some CHR ''<'', step = Some 4, pack_format = Some CHR ''I'',
     REG_PC = Some (UC ''UC_X86_REG_EIP''), REG_SP = Some (UC ''UC_X86_REG_ESP''),
     REG_RA = Some (REG_LITERAL 0), REG_RES = Some (UC ''UC_X86_REG_EAX''),
     REG_ARGS = Some []\<rparr>"

definition x86_32_live :: "(sim, target) session" where
  "x86_32_live =
    x86_32_fresh\<lparr>uc := Some \<lparr>mapped = [(0x70000000, 0x4000), (0x1000, 0x1000)],
                              written = [(0x1000, [CHR 0xC3]),
                                         (0x70000000, replicate 16384 (CHR 0x00))],
                              regfile = [(UC ''UC_X86_REG_ESP'', 0x70004000)],
                              hooked = [], stopped = False\<rparr>,
                 cs := Some (CS_ARCH_X86, CS_MODE_32),
                 start_address := Some 0x1000, return_address := Some 0x1001,
                 memory_areas := [(0x1000, 0x100)],
                 memory_contents := [(0x1000, [CHR 0xC3])],
                 breakpoints_callback := [\<lambda>address t. (breakpoint_callback t address, None)]\<rparr>"

definition x86_32_target :: target where
  "x86_32_target =
    \<lparr>part_number = [], endian = CHR ''<'', tgt_pack_format = CHR ''I'', tgt_step = 4,
     state = None, register_list = Some regs_general\<rparr>"

section \<open>Properties\<close>

subsection \<open>The example sessions are what the code builds\<close>

lemma x64_fresh_constructed:
  "PimpMyRide ''x64'' 64 True 0x70000123 4 COMPILE_GCC = Inr x64_fresh"
  by (simp add: PimpMyRide_def select_architecture_def setup_registers_def setup_x86_def x64_fresh_def
      align_address_def PAGE_SIZE_def uc_consts COMPILE_GCC_def Let_def)

lemma x64_ready_declared:
  "add_memory_area x64_fresh 0x1000 0x100 = Inr s1 \<Longrightarrow>
   add_memory_content s1 0x1000 [CHR 0xC3] = Inr s2 \<Longrightarrow>
   s2\<lparr>start_address := Some 0x1000, return_address := Some 0x1001\<rparr> = x64_ready"
  by (auto simp add: add_memory_area_def add_memory_content_def x64_ready_def x64_fresh_def)

subsection \<open>Breakpoints\<close>

text \<open>
  C8, as stated: \<^verbatim>\<open>set_breakpoint\<close> is idempotent and breakpoint addresses stay unique.
  The code appends to a list without looking: after setting \<open>0x1000\<close> twice the list
  holds it twice, and one \<^verbatim>\<open>remove_breakpoint\<close> leaves it set, whereas after setting it
  once the same removal clears it.
\<close>

theorem set_breakpoint_not_idempotent:
  "breakpoints (set_breakpoint (set_breakpoint x64_fresh 0x1000) 0x1000) = [0x1000, 0x1000]
   \<and> breakpoints (set_breakpoint x64_fresh 0x1000) = [0x1000]
   \<and> \<not> distinct (breakpoints (set_breakpoint (set_breakpoint x64_fresh 0x1000) 0x1000))
   \<and> 0x1000 \<in> set (breakpoints (remove_breakpoint
         (set_breakpoint (set_breakpoint x64_fresh 0x1000) 0x1000) 0x1000))
   \<and> 0x1000 \<notin> set (breakpoints (remove_breakpoint (set_breakpoint x64_fresh 0x1000) 0x1000))"
  by (simp add: set_breakpoint_def remove_breakpoint_def x64_fresh_def)

text \<open>
  C8, amended: \<^verbatim>\<open>set_breakpoint\<close> appends the address to the breakpoint list, so
  setting an address twice stores it twice while the set of addresses that halt execution
  is the same as after setting it once; \<^verbatim>\<open>remove_breakpoint\<close> removes the first
  occurrence of the address, and removing an address that is not in the list changes
  nothing and raises no error.
\<close>

theorem breakpoint_list_operations:
  "breakpoints (set_breakpoint s addr) = breakpoints s @ [addr]
   \<and> set (breakpoints (set_breakpoint (set_breakpoint s addr) addr))
       = set (breakpoints (set_breakpoint s addr))
   \<and> breakpoints (remove_breakpoint s addr) = remove1 addr (breakpoints s)
   \<and> (addr \<notin> set (breakpoints s) \<longrightarrow> remove_breakpoint s addr = s)"
  by (simp add: set_breakpoint_def remove_breakpoint_def remove1_idem)

theorem breakpoint_list_operations_witness:
  "(0x2000::int) \<notin> set (breakpoints (set_breakpoint x64_fresh 0x1000))
   \<and> remove_breakpoint (set_breakpoint x64_fresh 0x1000) 0x2000 = set_breakpoint x64_fresh 0x1000
   \<and> breakpoints (set_breakpoint (set_breakpoint x64_fresh 0x1000) 0x2000) = [0x1000, 0x2000]"
  using breakpoint_list_operations [of "set_breakpoint x64_fresh 0x1000" "0x2000"]
  by (simp add: set_breakpoint_def x64_fresh_def)

subsection \<open>Alignment, range validation and the stack\<close>

lemma align_address_eq: "align_address a = a - a mod PAGE_SIZE"
  by (simp add: align_address_def minus_mod_eq_div_mult)

lemma align_address_bounds:
  "align_address a \<le> a" "a < align_address a + PAGE_SIZE" "align_address a mod PAGE_SIZE = 0"
proof -
  have "0 \<le> a mod PAGE_SIZE" "a mod PAGE_SIZE < PAGE_SIZE"
    by (simp_all add: PAGE_SIZE_def)
  then show "align_address a \<le> a" "a < align_address a + PAGE_SIZE"
    by (simp_all add: align_address_eq)
  show "align_address a mod PAGE_SIZE = 0"
    by (simp add: align_address_def)
qed

lemma align_address_strict: "a mod PAGE_SIZE \<noteq> 0 \<Longrightarrow> align_address a < a"
proof -
  assume "a mod PAGE_SIZE \<noteq> 0"
  moreover have "0 \<le> a mod PAGE_SIZE"
    by (simp add: PAGE_SIZE_def)
  ultimately show ?thesis
    by (simp add: align_address_eq)
qed

lemma area_loop_iff:
  "area_loop areas a b \<longleftrightarrow> (\<exists>(base, n) \<in> set areas. base \<le> a \<and> b \<le> base + n)"
  by (induction areas a b rule: area_loop.induct) auto

lemma is_valid_memory_range_iff:
  "is_valid_memory_range s a b \<longleftrightarrow>
     (\<exists>(base, n) \<in> set (memory_areas s). base \<le> a \<and> b \<le> base + n)
     \<or> (stack s \<le> a \<and> b \<le> stack s + stack_size s * PAGE_SIZE)"
  by (auto simp add: is_valid_memory_range_def area_loop_iff algebra_simps)

lemma is_valid_memory_range_uc [simp]:
  "is_valid_memory_range (s\<lparr>uc := x\<rparr>) a b = is_valid_memory_range s a b"
  by (simp add: is_valid_memory_range_def)

lemma initialize_memory_steps:
  assumes "uc s = Some e" "0 \<le> stack_size s"
  shows "initialize_memory U s =
    (case uc_mem_map U e (stack s) (stack_size s * PAGE_SIZE) None of
       Inl msg \<Rightarrow> Inl (UcError msg)
     | Inr e1 \<Rightarrow>
     (case uc_mem_write U e1 (stack s) (replicate (nat (stack_size s * PAGE_SIZE)) (CHR 0x00)) of
       Inl msg \<Rightarrow> Inl (UcError msg)
     | Inr e2 \<Rightarrow>
     (case REG_SP s of
       None \<Rightarrow> Inl (AttributeError ''REG_SP'')
     | Some r \<Rightarrow>
     (case uc_reg_write U e2 r (stack s + stack_size s * PAGE_SIZE) of
       Inl msg \<Rightarrow> Inl (UcError msg)
     | Inr e3 \<Rightarrow> commit_areas U (s\<lparr>uc := Some e3\<rparr>)))))"
proof -
  have P: "0 \<le> stack_size s * PAGE_SIZE"
    using assms(2) by (simp add: PAGE_SIZE_def)
  have V: "is_valid_memory_range s (stack s)
             (stack s + int (length (replicate (nat (stack_size s * PAGE_SIZE)) (CHR 0x00))))"
    using P by (simp add: is_valid_memory_range_iff)
  show ?thesis
  proof (cases "uc_mem_map U e (stack s) (stack_size s * PAGE_SIZE) None")
    case (Inl msg)
    then show ?thesis
      using assms(1) by (simp add: initialize_memory_def memory_map_def Let_def)
  next
    case M: (Inr e1)
    show ?thesis
    proof (cases "uc_mem_write U e1 (stack s) (replicate (nat (stack_size s * PAGE_SIZE)) (CHR 0x00))")
      case (Inl msg)
      then show ?thesis
        using assms(1) M V
        by (simp add: initialize_memory_def memory_map_def write_memory_def Let_def)
    next
      case W: (Inr e2)
      show ?thesis
      proof (cases "REG_SP s")
        case None
        then show ?thesis
          using assms(1) M V W
          by (simp add: initialize_memory_def memory_map_def write_memory_def Let_def)
      next
        case (Some r)
        then show ?thesis
          using assms(1) M V W
          by (cases "uc_reg_write U e2 r (stack s + stack_size s * PAGE_SIZE)")
             (simp_all add: initialize_memory_def memory_map_def write_memory_def Let_def)
      qed
    qed
  qed
qed

lemma setup_registers_stack:
  "stack (setup_registers s) = stack s" "stack_size (setup_registers s) = stack_size s"
proof -
  have "stack (setup_x86 s) = stack s \<and> stack_size (setup_x86 s) = stack_size s"
    by (simp add: setup_x86_def Let_def)
  moreover have "stack (setup_arm s) = stack s \<and> stack_size (setup_arm s) = stack_size s"
    by (simp add: setup_arm_def Let_def)
  moreover have "stack (setup_arm64 s) = stack s \<and> stack_size (setup_arm64 s) = stack_size s"
    by (simp add: setup_arm64_def)
  moreover have "stack (setup_mips s) = stack s \<and> stack_size (setup_mips s) = stack_size s"
    by (simp add: setup_mips_def Let_def)
  ultimately show "stack (setup_registers s) = stack s"
    and "stack_size (setup_registers s) = stack_size s"
    by (simp_all add: setup_registers_def)
qed

lemma constructor_stack:
  assumes "PimpMyRide arch_name bits le stack0 ssz cmpl = Inr s0"
  shows "stack s0 = align_address stack0" "stack_size s0 = ssz"
  using assms
  by (auto simp add: PimpMyRide_def setup_registers_stack split: sum.splits prod.splits)

lemma sim_init_memory:
  "initialize_memory sim_engine
     (x64_ready\<lparr>uc := Some sim_new, cs := Some (CS_ARCH_X86, CS_MODE_64)\<rparr>) = Inr x64_live"
  by (simp add: initialize_memory_def memory_map_def write_memory_def commit_areas_def
      is_valid_memory_range_def area_request_def align_address_def
      x64_ready_def x64_fresh_def x64_live_def sim_engine_def sim_new_def
      sim_overlaps_def sim_covers_def PAGE_SIZE_def UC_PROT_ALL_def Let_def)

text \<open>
  C10: the constructor stores the stack base aligned down to a page boundary, and the later
  stack operations use the stored base. For a session \<open>s\<close> that still has the stack
  attributes the constructor gave it: the base is \<open>stack0 div PAGE_SIZE * PAGE_SIZE\<close>, at
  most one page below the requested \<open>stack0\<close> and strictly below it when \<open>stack0\<close> is
  not aligned; range validation accepts, beside the declared areas, exactly the ranges
  inside \<open>[base, base + stack_size * PAGE_SIZE]\<close>; and \<^verbatim>\<open>__initialize_memory\<close> maps
  \<open>stack_size * PAGE_SIZE\<close> bytes at the aligned base, zeroes them and presets the stack
  pointer to \<open>base + stack_size * PAGE_SIZE\<close>.
\<close>

theorem stack_region_uses_aligned_base:
  assumes "PimpMyRide arch_name bits le stack0 ssz cmpl = Inr s0"
    and "stack s = stack s0" and "stack_size s = stack_size s0"
  shows "stack s = stack0 div PAGE_SIZE * PAGE_SIZE
    \<and> stack s mod PAGE_SIZE = 0 \<and> stack s \<le> stack0 \<and> stack0 < stack s + PAGE_SIZE
    \<and> (stack0 mod PAGE_SIZE \<noteq> 0 \<longrightarrow> stack s < stack0)
    \<and> (is_valid_memory_range s a b \<longleftrightarrow>
          area_loop (memory_areas s) a b
          \<or> (stack0 div PAGE_SIZE * PAGE_SIZE \<le> a
              \<and> b \<le> stack0 div PAGE_SIZE * PAGE_SIZE + ssz * PAGE_SIZE))
    \<and> (uc s = Some e \<and> 0 \<le> ssz \<longrightarrow>
        initialize_memory U s =
          (case uc_mem_map U e (stack0 div PAGE_SIZE * PAGE_SIZE) (ssz * PAGE_SIZE) None of
             Inl msg \<Rightarrow> Inl (UcError msg)
           | Inr e1 \<Rightarrow>
           (case uc_mem_write U e1 (stack0 div PAGE_SIZE * PAGE_SIZE)
                   (replicate (nat (ssz * PAGE_SIZE)) (CHR 0x00)) of
             Inl msg \<Rightarrow> Inl (UcError msg)
           | Inr e2 \<Rightarrow>
           (case REG_SP s of
             None \<Rightarrow> Inl (AttributeError ''REG_SP'')
           | Some r \<Rightarrow>
           (case uc_reg_write U e2 r (stack0 div PAGE_SIZE * PAGE_SIZE + ssz * PAGE_SIZE) of
             Inl msg \<Rightarrow> Inl (UcError msg)
           | Inr e3 \<Rightarrow> commit_areas U (s\<lparr>uc := Some e3\<rparr>))))))"
proof -
  have S: "stack s = align_address stack0" and Z: "stack_size s = ssz"
    using assms constructor_stack [OF assms(1)] by simp_all
  have A: "stack s = stack0 div PAGE_SIZE * PAGE_SIZE"
    using S by (simp add: align_address_def)
  have B: "stack s mod PAGE_SIZE = 0" "stack s \<le> stack0" "stack0 < stack s + PAGE_SIZE"
    using S align_address_bounds [of stack0] by simp_all
  have C: "stack0 mod PAGE_SIZE \<noteq> 0 \<longrightarrow> stack s < stack0"
    using S align_address_strict [of stack0] by simp
  have D: "is_valid_memory_range s a b \<longleftrightarrow>
          area_loop (memory_areas s) a b
          \<or> (stack0 div PAGE_SIZE * PAGE_SIZE \<le> a
              \<and> b \<le> stack0 div PAGE_SIZE * PAGE_SIZE + ssz * PAGE_SIZE)"
    using A Z by (auto simp add: is_valid_memory_range_def)
  have E: "initialize_memory U s =
          (case uc_mem_map U e (stack0 div PAGE_SIZE * PAGE_SIZE) (ssz * PAGE_SIZE) None of
             Inl msg \<Rightarrow> Inl (UcError msg)
           | Inr e1 \<Rightarrow>
           (case uc_mem_write U e1 (stack0 div PAGE_SIZE * PAGE_SIZE)
                   (replicate (nat (ssz * PAGE_SIZE)) (CHR 0x00)) of
             Inl msg \<Rightarrow> Inl (UcError msg)
           | Inr e2 \<Rightarrow>
           (case REG_SP s of
             None \<Rightarrow> Inl (AttributeError ''REG_SP'')
           | Some r \<Rightarrow>
           (case uc_reg_write U e2 r (stack0 div PAGE_SIZE * PAGE_SIZE + ssz * PAGE_SIZE) of
             Inl msg \<Rightarrow> Inl (UcError msg)
           | Inr e3 \<Rightarrow> commit_areas U (s\<lparr>uc := Some e3\<rparr>)))))"
    if "uc s = Some e" "0 \<le> ssz"
    using initialize_memory_steps [of s e U] that unfolding A [symmetric] Z [symmetric] by simp
  show ?thesis
    using A B C D E by blast
qed

theorem stack_region_uses_aligned_base_witness:
  "PimpMyRide ''x64'' 64 True 0x70000123 4 COMPILE_GCC = Inr x64_fresh
   \<and> stack (x64_ready\<lparr>uc := Some sim_new, cs := Some (CS_ARCH_X86, CS_MODE_64)\<rparr>) = 0x70000000
   \<and> (0x70000000 :: int) < 0x70000123
   \<and> is_valid_memory_range (x64_ready\<lparr>uc := Some sim_new, cs := Some (CS_ARCH_X86, CS_MODE_64)\<rparr>)
        0x70000000 0x70004000
   \<and> \<not> is_valid_memory_range (x64_ready\<lparr>uc := Some sim_new, cs := Some (CS_ARCH_X86, CS_MODE_64)\<rparr>)
        0x70000123 0x70004123
   \<and> initialize_memory sim_engine
        (x64_ready\<lparr>uc := Some sim_new, cs := Some (CS_ARCH_X86, CS_MODE_64)\<rparr>) = Inr x64_live
   \<and> mapped (the (uc x64_live)) ! 0 = (0x70000000, 0x4000)
   \<and> regfile (the (uc x64_live)) = [(UC ''UC_X86_REG_RSP'', 0x70004000)]"
proof -
  let ?s = "x64_ready\<lparr>uc := Some sim_new, cs := Some (CS_ARCH_X86, CS_MODE_64)\<rparr>"
  have h1: "PimpMyRide ''x64'' 64 True 0x70000123 4 COMPILE_GCC = Inr x64_fresh"
    by (rule x64_fresh_constructed)
  have h2: "stack ?s = stack x64_fresh" and h3: "stack_size ?s = stack_size x64_fresh"
    by (simp_all add: x64_ready_def)
  have V: "area_loop (memory_areas x64_ready) a b = (0x1000 \<le> a \<and> b \<le> 0x1100)" for a b
    by (simp add: x64_ready_def x64_fresh_def)
  note T = stack_region_uses_aligned_base [OF h1 h2 h3, of _ _ sim_new sim_engine]
  have r1: "stack ?s = 0x70000000"
    using T [of 0 0] by (simp add: PAGE_SIZE_def)
  have r2: "(0x70000000 :: int) < 0x70000123"
    by simp
  have r3: "is_valid_memory_range ?s 0x70000000 0x70004000"
    using T [of "0x70000000" "0x70004000"] by (simp add: PAGE_SIZE_def)
  have r4: "\<not> is_valid_memory_range ?s 0x70000123 0x70004123"
    using T [of "0x70000123" "0x70004123"] by (simp add: PAGE_SIZE_def V)
  have r5: "mapped (the (uc x64_live)) ! 0 = (0x70000000, 0x4000)"
    by (simp add: x64_live_def)
  have r6: "regfile (the (uc x64_live)) = [(UC ''UC_X86_REG_RSP'', 0x70004000)]"
    by (simp add: x64_live_def)
  show ?thesis
    by (intro conjI) (rule h1 r1 r2 r3 r4 sim_init_memory r5 r6)+
qed

subsection \<open>Mapping requests for declared areas\<close>

lemma area_request_eq:
  "area_request (address, sz) = (address - address mod PAGE_SIZE, sz - sz mod PAGE_SIZE + PAGE_SIZE)"
  by (simp add: area_request_def align_address_eq Let_def)

lemma area_request_aligned:
  "fst (area_request (address, sz)) mod PAGE_SIZE = 0"
  "snd (area_request (address, sz)) mod PAGE_SIZE = 0"
  "fst (area_request (address, sz)) \<le> address"
  "address < fst (area_request (address, sz)) + PAGE_SIZE"
  "sz < snd (area_request (address, sz))"
  "snd (area_request (address, sz)) \<le> sz + PAGE_SIZE"
proof -
  have F: "fst (area_request (address, sz)) = align_address address"
    and S: "snd (area_request (address, sz)) = align_address sz + PAGE_SIZE"
    by (simp_all add: area_request_def Let_def)
  show "fst (area_request (address, sz)) mod PAGE_SIZE = 0"
    "fst (area_request (address, sz)) \<le> address"
    "address < fst (area_request (address, sz)) + PAGE_SIZE"
    using align_address_bounds [of address] by (simp_all add: F)
  show "snd (area_request (address, sz)) mod PAGE_SIZE = 0"
    using align_address_bounds(3) [of sz] by (simp add: S)
  show "sz < snd (area_request (address, sz))" "snd (area_request (address, sz)) \<le> sz + PAGE_SIZE"
    using align_address_bounds [of sz] by (simp_all add: S)
qed

lemma area_request_contains_iff:
  "region_contains (area_request (address, sz)) (address, sz)
    \<longleftrightarrow> address mod PAGE_SIZE + sz mod PAGE_SIZE \<le> PAGE_SIZE"
proof -
  have "0 \<le> address mod PAGE_SIZE"
    by (simp add: PAGE_SIZE_def)
  then show ?thesis
    by (auto simp add: region_contains_def area_request_eq)
qed

text \<open>
  C3: every mapped region is a page-aligned superset of its declared area, and the mapped
  regions do not overlap. The alignment holds (\<open>area_request_aligned\<close>), but the size is
  computed from the area's size alone, so the region misses the end of an area whose base
  offset and size remainder exceed a page together (\<open>area_request_contains_iff\<close>), and
  the added page makes the regions of two contiguous page-sized areas overlap, for which
  the simulated engine refuses the second mapping and \<^verbatim>\<open>init\<close> fails. The source
  marks the computation as a kludge that breaks contiguous sections.
\<close>

theorem area_request_breaks_superset_and_disjointness:
  "area_request (0xFFF, 0x1002) = (0, 0x2000)
   \<and> \<not> region_contains (area_request (0xFFF, 0x1002)) (0xFFF, 0x1002)
   \<and> area_request (0x1000, 0x1000) = (0x1000, 0x2000)
   \<and> area_request (0x2000, 0x1000) = (0x2000, 0x2000)
   \<and> \<not> regions_overlap (0x1000, 0x1000) (0x2000, 0x1000)
   \<and> regions_overlap (area_request (0x1000, 0x1000)) (area_request (0x2000, 0x1000))
   \<and> init sim_engine x64_contiguous = Inl (UcError ''Invalid memory mapping (UC_ERR_MAP)'')"
proof -
  have I: "init sim_engine x64_contiguous = Inl (UcError ''Invalid memory mapping (UC_ERR_MAP)'')"
    by (simp add: init_def initialize_memory_def memory_map_def write_memory_def commit_areas_def
        is_valid_memory_range_def area_request_def align_address_def
        x64_contiguous_def x64_ready_def x64_fresh_def sim_engine_def sim_new_def
        sim_overlaps_def sim_covers_def PAGE_SIZE_def UC_PROT_ALL_def uc_consts Let_def)
  have A: "area_request (0xFFF, 0x1002) = (0, 0x2000)"
    "area_request (0x1000, 0x1000) = (0x1000, 0x2000)"
    "area_request (0x2000, 0x1000) = (0x2000, 0x2000)"
    by (simp_all add: area_request_def align_address_def PAGE_SIZE_def Let_def)
  show ?thesis
    by (simp add: A I region_contains_def regions_overlap_def)
qed

subsection \<open>Reading and writing memory\<close>

lemma sim_init:
  "init sim_engine x64_ready = Inr x64_live"
proof -
  have "init sim_engine x64_ready =
        initialize_memory sim_engine (x64_ready\<lparr>uc := Some sim_new, cs := Some (CS_ARCH_X86, CS_MODE_64)\<rparr>)"
    by (simp add: init_def initialize_hooks_def initialize_registers_def
        x64_ready_def x64_fresh_def sim_engine_def uc_consts
        initialize_memory_def memory_map_def write_memory_def commit_areas_def
        is_valid_memory_range_def area_request_def align_address_def
        sim_new_def sim_overlaps_def sim_covers_def PAGE_SIZE_def UC_PROT_ALL_def Let_def
        CS_ARCH_X86_def CS_MODE_64_def)
  then show ?thesis
    by (simp add: sim_init_memory)
qed

text \<open>
  C1, as stated: an access outside every declared area and the stack fails with an
  out-of-bounds error, and an access inside a declared area succeeds. On the initialised
  session \<open>x64_live\<close> the range at \<open>0x2000\<close> is valid for no area, yet \<^verbatim>\<open>read_memory\<close>
  returns the empty string and \<^verbatim>\<open>write_memory\<close> returns the empty string, both as
  normal results; and before \<^verbatim>\<open>init\<close> a read inside the declared area raises, since
  there is no engine yet.
\<close>

theorem invalid_range_returns_empty_string:
  "\<not> is_valid_memory_range x64_live 0x2000 (0x2000 + 16)
   \<and> read_memory sim_engine x64_live 0x2000 16 = Inr ''''
   \<and> \<not> is_valid_memory_range x64_live 0x2000 (0x2000 + int (length ''AB''))
   \<and> write_memory sim_engine x64_live 0x2000 ''AB'' = Inr (x64_live, Some '''')
   \<and> is_valid_memory_range x64_ready 0x1000 (0x1000 + 1)
   \<and> read_memory sim_engine x64_ready 0x1000 1 = Inl (AttributeError ''mem_read'')"
  by (simp add: read_memory_def write_memory_def is_valid_memory_range_def
      x64_live_def x64_ready_def x64_fresh_def PAGE_SIZE_def)

text \<open>
  C1, amended: \<^verbatim>\<open>read_memory\<close> and \<^verbatim>\<open>write_memory\<close> first validate the range. When
  it lies neither in a declared area nor in the stack region, both return the empty string
  as a normal result and the engine is not touched. When it lies in one of them, the
  request is handed to the engine, and the outcome is the engine's: the bytes read (or
  \<^verbatim>\<open>None\<close> after a write), or the engine's error.
\<close>

theorem memory_access_validates_range:
  "read_memory U s address sz =
     (if (\<exists>(base, n) \<in> set (memory_areas s). base \<le> address \<and> address + sz \<le> base + n)
          \<or> (stack s \<le> address \<and> address + sz \<le> stack s + stack_size s * PAGE_SIZE)
      then (case uc s of
              None \<Rightarrow> Inl (AttributeError ''mem_read'')
            | Some e \<Rightarrow> (case uc_mem_read U e address sz of
                Inl msg \<Rightarrow> Inl (UcError msg)
              | Inr content \<Rightarrow> Inr content))
      else Inr '''')
   \<and> write_memory U s address content =
     (if (\<exists>(base, n) \<in> set (memory_areas s).
              base \<le> address \<and> address + int (length content) \<le> base + n)
          \<or> (stack s \<le> address
              \<and> address + int (length content) \<le> stack s + stack_size s * PAGE_SIZE)
      then (case uc s of
              None \<Rightarrow> Inl (AttributeError ''mem_write'')
            | Some e \<Rightarrow> (case uc_mem_write U e address content of
                Inl msg \<Rightarrow> Inl (UcError msg)
              | Inr e' \<Rightarrow> Inr (s\<lparr>uc := Some e'\<rparr>, None)))
      else Inr (s, Some ''''))"
  by (simp add: read_memory_def write_memory_def is_valid_memory_range_iff)

theorem memory_access_validates_range_witness:
  "read_memory sim_engine x64_live 0x1000 1 = Inr [CHR 0xC3]
   \<and> read_memory sim_engine x64_live 0x10FF 2 = Inr []
   \<and> write_memory sim_engine x64_live 0x70003FFF [CHR 0x01] =
       Inr (x64_live\<lparr>uc := Some ((the (uc x64_live))
              \<lparr>written := (0x70003FFF, [CHR 0x01]) # written (the (uc x64_live))\<rparr>)\<rparr>, None)
   \<and> write_memory sim_engine x64_live 0x70004000 [CHR 0x01] = Inr (x64_live, Some [])"
proof -
  have A: "memory_areas x64_live = [(0x1000, 0x100)]" "stack x64_live = 0x70000000"
    "stack_size x64_live = 4"
    by (simp_all add: x64_live_def x64_ready_def x64_fresh_def)
  have "read_memory sim_engine x64_live 0x1000 1 =
        (case uc x64_live of
           None \<Rightarrow> Inl (AttributeError ''mem_read'')
         | Some e \<Rightarrow> (case uc_mem_read sim_engine e 0x1000 1 of
             Inl msg \<Rightarrow> Inl (UcError msg)
           | Inr content \<Rightarrow> Inr content))"
    using memory_access_validates_range [where U = sim_engine and s = x64_live and address = "0x1000" and sz = 1, THEN conjunct1]
    by (simp add: A PAGE_SIZE_def)
  also have "\<dots> = Inr [CHR 0xC3]"
    by (simp add: x64_live_def sim_engine_def sim_covers_def sim_byte_def)
  finally have r1: "read_memory sim_engine x64_live 0x1000 1 = Inr [CHR 0xC3]" .
  have r2: "read_memory sim_engine x64_live 0x10FF 2 = Inr []"
    using memory_access_validates_range [where U = sim_engine and s = x64_live and address = "0x10FF" and sz = 2, THEN conjunct1]
    by (simp add: A PAGE_SIZE_def)
  have "write_memory sim_engine x64_live 0x70003FFF [CHR 0x01] =
        (case uc x64_live of
           None \<Rightarrow> Inl (AttributeError ''mem_write'')
         | Some e \<Rightarrow> (case uc_mem_write sim_engine e 0x70003FFF [CHR 0x01] of
             Inl msg \<Rightarrow> Inl (UcError msg)
           | Inr e' \<Rightarrow> Inr (x64_live\<lparr>uc := Some e'\<rparr>, None)))"
    using memory_access_validates_range [where U = sim_engine and s = x64_live and address = "0x70003FFF"
               and content = "[CHR 0x01]", THEN conjunct2]
    by (simp add: A PAGE_SIZE_def)
  also have "\<dots> = Inr (x64_live\<lparr>uc := Some ((the (uc x64_live))
              \<lparr>written := (0x70003FFF, [CHR 0x01]) # written (the (uc x64_live))\<rparr>)\<rparr>, None)"
    by (simp add: x64_live_def sim_engine_def sim_covers_def)
  finally have r3: "write_memory sim_engine x64_live 0x70003FFF [CHR 0x01] =
       Inr (x64_live\<lparr>uc := Some ((the (uc x64_live))
              \<lparr>written := (0x70003FFF, [CHR 0x01]) # written (the (uc x64_live))\<rparr>)\<rparr>, None)" .
  have r4: "write_memory sim_engine x64_live 0x70004000 [CHR 0x01] = Inr (x64_live, Some [])"
    using memory_access_validates_range [where U = sim_engine and s = x64_live and address = "0x70004000"
               and content = "[CHR 0x01]", THEN conjunct2]
    by (simp add: A PAGE_SIZE_def)
  show ?thesis
    by (intro conjI) (rule r1 r2 r3 r4)+
qed

subsection \<open>Register names\<close>

lemma reg_tables_lower_case:
  "list_all (\<lambda>(k, v). list_all lower_or_digit k) mips_reg_map"
  "list_all (\<lambda>(k, v). list_all lower_or_digit k) arm64_reg_map"
  "list_all (\<lambda>(k, v). list_all lower_or_digit k) x64_reg_map"
  "list_all (\<lambda>(k, v). list_all lower_or_digit k) arm_reg_map"
  by (simp_all add: mips_reg_map_def arm64_reg_map_def x64_reg_map_def arm_reg_map_def
      lower_or_digit_def)

lemma dict_get_other_spelling:
  assumes "list_all (\<lambda>(k, v). list_all lower_or_digit k) tbl"
    and "\<not> list_all lower_or_digit nm"
  shows "dict_get tbl nm d = d"
proof -
  have "nm \<notin> fst ` set tbl"
    using assms by (auto simp add: list_all_iff)
  then have "map_of tbl nm = None"
    by (simp add: map_of_eq_None_iff)
  then show ?thesis
    by (simp add: dict_get_def)
qed

lemma reg_map_table:
  assumes "has_reg_table s"
  shows "reg_map s nm =
    Inr (dict_get (if architecture s = Some UC_ARCH_MIPS then mips_reg_map
                   else if architecture s = Some UC_ARCH_ARM64 then arm64_reg_map
                   else if architecture s = Some UC_ARCH_X86 then x64_reg_map
                   else arm_reg_map) nm (REG_LITERAL 0x11223344))"
  using assms by (auto simp add: has_reg_table_def reg_map_def uc_consts)

text \<open>
  C2, as stated: the lookup of a register name is case-insensitive and fails with an
  unknown-register error for a name that is not in the table. On the x64 session the name
  \<open>rax\<close> gives the engine's \<open>RAX\<close>, but \<open>RAX\<close> and the unknown \<open>xyz\<close> both give the
  number \<open>0x11223344\<close> as a normal result, which \<^verbatim>\<open>write_register\<close> hands to the
  engine as a register identifier.
\<close>

theorem reg_map_returns_sentinel:
  "reg_map x64_live ''rax'' = Inr (UC ''UC_X86_REG_RAX'')
   \<and> reg_map x64_live ''RAX'' = Inr (REG_LITERAL 0x11223344)
   \<and> reg_map x64_live ''xyz'' = Inr (REG_LITERAL 0x11223344)
   \<and> map_sum id (\<lambda>s. map_option regfile (uc s)) (write_register sim_engine x64_live ''xyz'' 7) =
       Inr (Some [(REG_LITERAL 0x11223344, 7), (UC ''UC_X86_REG_RSP'', 0x70004000)])"
  by (simp add: reg_map_def write_register_def dict_get_def x64_reg_map_def
      x64_live_def x64_ready_def x64_fresh_def sim_engine_def uc_consts)

text \<open>
  C2, amended: for MIPS, AArch64, 64-bit x86 and ARM (ARM mode) sessions the lookup is an
  exact match against the table of the session's architecture: a name that is a key of
  that table gives the identifier the table gives it, and every other name gives the
  number \<open>0x11223344\<close> as a normal result; the keys are lower-case, so any spelling with
  a character that is not a lower-case letter or a digit gives that number. For 16- and
  32-bit x86 sessions the lookup raises \<^verbatim>\<open>Register map not implemented\<close> for every name,
  and for ARM Thumb sessions \<^verbatim>\<open>Register map for ARM thumb-mode not implemented\<close>.
  Whatever the lookup returns, \<^verbatim>\<open>read_register\<close> and \<^verbatim>\<open>write_register\<close> of a session
  with an engine hand it to the engine as the register identifier, and their outcome is
  the engine's.
\<close>

theorem reg_map_exact_match_or_sentinel:
  "(has_reg_table s \<longrightarrow>
      reg_map s nm =
        Inr (case map_of (if architecture s = Some UC_ARCH_MIPS then mips_reg_map
                          else if architecture s = Some UC_ARCH_ARM64 then arm64_reg_map
                          else if architecture s = Some UC_ARCH_X86 then x64_reg_map
                          else arm_reg_map) nm of
               None \<Rightarrow> REG_LITERAL 0x11223344
             | Some r \<Rightarrow> r)
      \<and> (\<not> list_all lower_or_digit nm \<longrightarrow> reg_map s nm = Inr (REG_LITERAL 0x11223344)))
   \<and> (architecture s = Some UC_ARCH_X86 \<and> (mode s = Some UC_MODE_16 \<or> mode s = Some UC_MODE_32)
        \<longrightarrow> reg_map s nm = Inl (PyException ''Register map not implemented''))
   \<and> (architecture s = Some UC_ARCH_ARM \<and> mode s = Some UC_MODE_THUMB
        \<longrightarrow> reg_map s nm = Inl (PyException ''Register map for ARM thumb-mode not implemented''))
   \<and> (\<forall>r e. reg_map s nm = Inr r \<and> uc s = Some e \<longrightarrow>
         read_register U s nm =
           (case uc_reg_read U e r of Inl msg \<Rightarrow> Inl (UcError msg) | Inr x \<Rightarrow> Inr x)
         \<and> write_register U s nm v =
           (case uc_reg_write U e r v of
              Inl msg \<Rightarrow> Inl (UcError msg)
            | Inr e' \<Rightarrow> Inr (s\<lparr>uc := Some e'\<rparr>)))"
proof -
  let ?tbl = "if architecture s = Some UC_ARCH_MIPS then mips_reg_map
              else if architecture s = Some UC_ARCH_ARM64 then arm64_reg_map
              else if architecture s = Some UC_ARCH_X86 then x64_reg_map
              else arm_reg_map"
  have A: "reg_map s nm = Inr (case map_of ?tbl nm of
                                 None \<Rightarrow> REG_LITERAL 0x11223344
                               | Some r \<Rightarrow> r)
           \<and> (\<not> list_all lower_or_digit nm \<longrightarrow> reg_map s nm = Inr (REG_LITERAL 0x11223344))"
    if H: "has_reg_table s"
  proof -
    have T: "reg_map s nm = Inr (dict_get ?tbl nm (REG_LITERAL 0x11223344))"
      using H by (rule reg_map_table)
    have L: "list_all (\<lambda>(k, v). list_all lower_or_digit k) ?tbl"
      by (simp add: reg_tables_lower_case)
    have E: "reg_map s nm = Inr (case map_of ?tbl nm of
                                None \<Rightarrow> REG_LITERAL 0x11223344
                              | Some r \<Rightarrow> r)"
      using T by (simp only: dict_get_def)
    have S: "reg_map s nm = Inr (REG_LITERAL 0x11223344)" if N: "\<not> list_all lower_or_digit nm"
      using T dict_get_other_spelling [OF L N] by simp
    show ?thesis
      using E S by blast
  qed
  have B: "reg_map s nm = Inl (PyException ''Register map not implemented'')"
    if "architecture s = Some UC_ARCH_X86 \<and> (mode s = Some UC_MODE_16 \<or> mode s = Some UC_MODE_32)"
    using that by (auto simp add: reg_map_def uc_consts)
  have C: "reg_map s nm = Inl (PyException ''Register map for ARM thumb-mode not implemented'')"
    if "architecture s = Some UC_ARCH_ARM \<and> mode s = Some UC_MODE_THUMB"
    using that by (auto simp add: reg_map_def uc_consts)
  have D: "read_register U s nm =
           (case uc_reg_read U e r of Inl msg \<Rightarrow> Inl (UcError msg) | Inr x \<Rightarrow> Inr x)
         \<and> write_register U s nm v =
           (case uc_reg_write U e r v of
              Inl msg \<Rightarrow> Inl (UcError msg)
            | Inr e' \<Rightarrow> Inr (s\<lparr>uc := Some e'\<rparr>))"
    if "reg_map s nm = Inr r \<and> uc s = Some e" for r e
    using that by (simp add: read_register_def write_register_def)
  show ?thesis
    using A B C D by blast
qed

theorem reg_map_exact_match_or_sentinel_witness:
  "has_reg_table x64_live
   \<and> \<not> list_all lower_or_digit ''RDX''
   \<and> reg_map x64_live ''RDX'' = Inr (REG_LITERAL 0x11223344)
   \<and> reg_map x64_live ''rdx'' = Inr (UC ''UC_X86_REG_RDX'')
   \<and> architecture x86_32_live = Some UC_ARCH_X86 \<and> mode x86_32_live = Some UC_MODE_32
   \<and> reg_map x86_32_live ''eax'' = Inl (PyException ''Register map not implemented'')"
proof -
  have h: "has_reg_table x64_live"
    by (simp add: has_reg_table_def x64_live_def x64_ready_def x64_fresh_def)
  have n: "\<not> list_all lower_or_digit ''RDX''"
    by (simp add: lower_or_digit_def)
  have a: "architecture x64_live = Some UC_ARCH_X86"
    by (simp add: x64_live_def x64_ready_def x64_fresh_def)
  have r1: "reg_map x64_live ''RDX'' = Inr (REG_LITERAL 0x11223344)"
    using reg_map_exact_match_or_sentinel [where s = x64_live and nm = "''RDX''"
        and U = sim_engine and v = 0] h n by blast
  have "reg_map x64_live ''rdx'' =
        Inr (case map_of (if architecture x64_live = Some UC_ARCH_MIPS then mips_reg_map
                          else if architecture x64_live = Some UC_ARCH_ARM64 then arm64_reg_map
                          else if architecture x64_live = Some UC_ARCH_X86 then x64_reg_map
                          else arm_reg_map) ''rdx'' of
               None \<Rightarrow> REG_LITERAL 0x11223344
             | Some r \<Rightarrow> r)"
    using reg_map_exact_match_or_sentinel [where s = x64_live and nm = "''rdx''"
        and U = sim_engine and v = 0] h by blast
  then have r2: "reg_map x64_live ''rdx'' = Inr (UC ''UC_X86_REG_RDX'')"
    by (simp add: a uc_consts x64_reg_map_def)
  have m: "architecture x86_32_live = Some UC_ARCH_X86" "mode x86_32_live = Some UC_MODE_32"
    by (simp_all add: x86_32_live_def x86_32_fresh_def)
  have r3: "reg_map x86_32_live ''eax'' = Inl (PyException ''Register map not implemented'')"
    using reg_map_exact_match_or_sentinel [where s = x86_32_live and nm = "''eax''"
        and U = sim_engine and v = 0] m by blast
  show ?thesis
    by (intro conjI) (rule h n r1 r2 m r3)+
qed

subsection \<open>The swapped names of the x64 table\<close>

lemma x64_reg_map_session:
  assumes "architecture s = Some UC_ARCH_X86" "mode s = Some UC_MODE_64"
  shows "reg_map s nm = Inr (dict_get x64_reg_map nm (REG_LITERAL 0x11223344))"
  using assms by (simp add: reg_map_def uc_consts)

lemma context_loop_pack_regs:
  assumes "\<And>nm. reg_map s nm = Inr (f nm)" and "uc s = Some e"
  shows "context_loop U s t rl resp = pack_regs U e t (map (\<lambda>r. f (name r)) rl) resp"
proof (induction rl arbitrary: resp)
  case Nil
  show ?case by simp
next
  case (Cons r rl)
  show ?case
    by (simp add: Cons.IH read_register_def assms split: sum.split)
qed

lemma x64_context_ids:
  "map (\<lambda>r. dict_get x64_reg_map (name r) (REG_LITERAL 0x11223344)) regs_general =
     [UC ''UC_X86_REG_RAX'', UC ''UC_X86_REG_RCX'', UC ''UC_X86_REG_RBX'', UC ''UC_X86_REG_RDX'',
      UC ''UC_X86_REG_RDI'', UC ''UC_X86_REG_RSI'', UC ''UC_X86_REG_RBP'', UC ''UC_X86_REG_RSP'',
      UC ''UC_X86_REG_R8'', UC ''UC_X86_REG_R9'', UC ''UC_X86_REG_R10'', UC ''UC_X86_REG_R11'',
      UC ''UC_X86_REG_R12'', UC ''UC_X86_REG_R13'', UC ''UC_X86_REG_R14'', UC ''UC_X86_REG_R15'',
      UC ''UC_X86_REG_RIP'']"
  by (simp add: regs_general_def RegisterInfo_new_def dict_get_def x64_reg_map_def)

lemma regs_general_names:
  "map name regs_general =
     [''rax'', ''rcx'', ''rbx'', ''rdx'', ''rsi'', ''rdi'', ''rbp'', ''rsp'', ''r8'', ''r9'',
      ''r10'', ''r11'', ''r12'', ''r13'', ''r14'', ''r15'', ''rip'']"
  by (simp add: regs_general_def RegisterInfo_new_def)

text \<open>
  C9: in x64 mode the name \<open>rdi\<close> is bound to the engine's \<open>RSI\<close> and the name \<open>rsi\<close>
  to the engine's \<open>RDI\<close>. Reading and writing a register by either name reaches the other
  engine register, and the register context, whose fifth and sixth entries are named
  \<open>rsi\<close> and \<open>rdi\<close>, holds the engine's \<open>RDI\<close> fifth and the engine's \<open>RSI\<close> sixth.
\<close>

theorem x64_rdi_rsi_swapped:
  assumes "architecture s = Some UC_ARCH_X86" and "mode s = Some UC_MODE_64"
    and "uc s = Some e"
  shows "reg_map s ''rdi'' = Inr (UC ''UC_X86_REG_RSI'')
    \<and> reg_map s ''rsi'' = Inr (UC ''UC_X86_REG_RDI'')
    \<and> read_register U s ''rdi'' = map_sum UcError id (uc_reg_read U e (UC ''UC_X86_REG_RSI''))
    \<and> read_register U s ''rsi'' = map_sum UcError id (uc_reg_read U e (UC ''UC_X86_REG_RDI''))
    \<and> write_register U s ''rdi'' v =
        map_sum UcError (\<lambda>e'. s\<lparr>uc := Some e'\<rparr>) (uc_reg_write U e (UC ''UC_X86_REG_RSI'') v)
    \<and> write_register U s ''rsi'' v =
        map_sum UcError (\<lambda>e'. s\<lparr>uc := Some e'\<rparr>) (uc_reg_write U e (UC ''UC_X86_REG_RDI'') v)
    \<and> map name regs_general ! 4 = ''rsi'' \<and> map name regs_general ! 5 = ''rdi''
    \<and> (register_list t = Some regs_general \<longrightarrow>
        getRegisterContext U s t =
          pack_regs U e t
            [UC ''UC_X86_REG_RAX'', UC ''UC_X86_REG_RCX'', UC ''UC_X86_REG_RBX'',
             UC ''UC_X86_REG_RDX'', UC ''UC_X86_REG_RDI'', UC ''UC_X86_REG_RSI'',
             UC ''UC_X86_REG_RBP'', UC ''UC_X86_REG_RSP'', UC ''UC_X86_REG_R8'',
             UC ''UC_X86_REG_R9'', UC ''UC_X86_REG_R10'', UC ''UC_X86_REG_R11'',
             UC ''UC_X86_REG_R12'', UC ''UC_X86_REG_R13'', UC ''UC_X86_REG_R14'',
             UC ''UC_X86_REG_R15'', UC ''UC_X86_REG_RIP''] [])"
proof -
  note M = x64_reg_map_session [OF assms(1,2)]
  have I: "dict_get x64_reg_map ''rdi'' (REG_LITERAL 0x11223344) = UC ''UC_X86_REG_RSI''"
    "dict_get x64_reg_map ''rsi'' (REG_LITERAL 0x11223344) = UC ''UC_X86_REG_RDI''"
    by (simp_all add: dict_get_def x64_reg_map_def)
  have A: "reg_map s ''rdi'' = Inr (UC ''UC_X86_REG_RSI'')"
    "reg_map s ''rsi'' = Inr (UC ''UC_X86_REG_RDI'')"
    by (simp_all add: M I)
  have B: "read_register U s ''rdi'' = map_sum UcError id (uc_reg_read U e (UC ''UC_X86_REG_RSI''))"
    "read_register U s ''rsi'' = map_sum UcError id (uc_reg_read U e (UC ''UC_X86_REG_RDI''))"
    by (simp_all add: read_register_def A assms(3) split: sum.split)
  have C: "write_register U s ''rdi'' v =
        map_sum UcError (\<lambda>e'. s\<lparr>uc := Some e'\<rparr>) (uc_reg_write U e (UC ''UC_X86_REG_RSI'') v)"
    "write_register U s ''rsi'' v =
        map_sum UcError (\<lambda>e'. s\<lparr>uc := Some e'\<rparr>) (uc_reg_write U e (UC ''UC_X86_REG_RDI'') v)"
    by (simp_all add: write_register_def A assms(3) split: sum.split)
  have D: "map name regs_general ! 4 = ''rsi''" "map name regs_general ! 5 = ''rdi''"
    by (simp_all add: regs_general_names)
  have E: "getRegisterContext U s t =
          pack_regs U e t
            [UC ''UC_X86_REG_RAX'', UC ''UC_X86_REG_RCX'', UC ''UC_X86_REG_RBX'',
             UC ''UC_X86_REG_RDX'', UC ''UC_X86_REG_RDI'', UC ''UC_X86_REG_RSI'',
             UC ''UC_X86_REG_RBP'', UC ''UC_X86_REG_RSP'', UC ''UC_X86_REG_R8'',
             UC ''UC_X86_REG_R9'', UC ''UC_X86_REG_R10'', UC ''UC_X86_REG_R11'',
             UC ''UC_X86_REG_R12'', UC ''UC_X86_REG_R13'', UC ''UC_X86_REG_R14'',
             UC ''UC_X86_REG_R15'', UC ''UC_X86_REG_RIP''] []"
    if "register_list t = Some regs_general"
    using context_loop_pack_regs [where s = s and U = U and t = t and rl = regs_general
        and f = "\<lambda>nm. dict_get x64_reg_map nm (REG_LITERAL 0x11223344)" and e = e and resp = "[]",
        OF M assms(3)]
    by (simp add: getRegisterContext_def that x64_context_ids)
  show ?thesis
    using A B C D E by blast
qed
theorem x64_rdi_rsi_swapped_witness:
  "architecture x64_live = Some UC_ARCH_X86 \<and> mode x64_live = Some UC_MODE_64
   \<and> uc x64_live = Some (the (uc x64_live))
   \<and> reg_map x64_live ''rdi'' = Inr (UC ''UC_X86_REG_RSI'')
   \<and> map_sum id (\<lambda>s. map_option regfile (uc s)) (write_register sim_engine x64_live ''rdi'' 7) =
       Inr (Some [(UC ''UC_X86_REG_RSI'', 7), (UC ''UC_X86_REG_RSP'', 0x70004000)])
   \<and> map_sum id (\<lambda>s. map_option regfile (uc s)) (write_register sim_engine x64_live ''rsi'' 9) =
       Inr (Some [(UC ''UC_X86_REG_RDI'', 9), (UC ''UC_X86_REG_RSP'', 0x70004000)])"
proof -
  have h1: "architecture x64_live = Some UC_ARCH_X86" and h2: "mode x64_live = Some UC_MODE_64"
    and h3: "uc x64_live = Some (the (uc x64_live))"
    by (simp_all add: x64_live_def x64_ready_def x64_fresh_def)
  note T = x64_rdi_rsi_swapped [OF h1 h2 h3, where U = sim_engine]
  have r1: "reg_map x64_live ''rdi'' = Inr (UC ''UC_X86_REG_RSI'')"
    using T by blast
  have w1: "write_register sim_engine x64_live ''rdi'' 7 =
        map_sum UcError (\<lambda>e'. x64_live\<lparr>uc := Some e'\<rparr>)
          (uc_reg_write sim_engine (the (uc x64_live)) (UC ''UC_X86_REG_RSI'') 7)"
    using T [where v = 7] by blast
  have w2: "write_register sim_engine x64_live ''rsi'' 9 =
        map_sum UcError (\<lambda>e'. x64_live\<lparr>uc := Some e'\<rparr>)
          (uc_reg_write sim_engine (the (uc x64_live)) (UC ''UC_X86_REG_RDI'') 9)"
    using T [where v = 9] by blast
  have r2: "map_sum id (\<lambda>s. map_option regfile (uc s)) (write_register sim_engine x64_live ''rdi'' 7) =
       Inr (Some [(UC ''UC_X86_REG_RSI'', 7), (UC ''UC_X86_REG_RSP'', 0x70004000)])"
    unfolding w1 by (simp add: sim_engine_def x64_live_def)
  have r3: "map_sum id (\<lambda>s. map_option regfile (uc s)) (write_register sim_engine x64_live ''rsi'' 9) =
       Inr (Some [(UC ''UC_X86_REG_RDI'', 9), (UC ''UC_X86_REG_RSP'', 0x70004000)])"
    unfolding w2 by (simp add: sim_engine_def x64_live_def)
  show ?thesis
    by (intro conjI) (rule h1 h2 h3 r1 r2 r3)+
qed

subsection \<open>An engine error during start\<close>

lemma read_regs_total:
  assumes "\<And>r. \<exists>v. uc_reg_read U e r = Inr v"
  shows "\<exists>vs. read_regs U e ids = Inr vs"
proof (induction ids)
  case Nil
  show ?case by simp
next
  case (Cons r ids)
  obtain v where "uc_reg_read U e r = Inr v"
    using assms by blast
  moreover obtain vs where "read_regs U e ids = Inr vs"
    using Cons.IH by blast
  ultimately show ?case by simp
qed



lemma show_regs_total:
  assumes "uc s = Some e" and "\<And>r. \<exists>v. uc_reg_read U e r = Inr v"
    and "architecture s = Some UC_ARCH_X86 \<longrightarrow> mode s = Some UC_MODE_32 \<or> mode s = Some UC_MODE_64"
  shows "\<exists>vs. show_regs U s = Inr vs"
proof -
  have D: "\<exists>vs. dump_regs U s ids = Inr vs" for ids
    using read_regs_total [of U e ids] assms(1,2) by (auto simp add: dump_regs_def)
  show ?thesis
    using assms(3) D [of mips_shown] D [of x86_32_shown] D [of x86_64_shown]
    by (auto simp add: show_regs_def uc_consts)
qed





subsection \<open>Calling init again\<close>

lemma memory_map_config:
  "memory_map U s a sz perm = Inr s' \<Longrightarrow> s'\<lparr>uc := None\<rparr> = s\<lparr>uc := None\<rparr>"
  by (auto simp add: memory_map_def split: option.splits sum.splits if_splits)

lemma write_memory_config:
  "write_memory U s a content = Inr (s', r) \<Longrightarrow> s'\<lparr>uc := None\<rparr> = s\<lparr>uc := None\<rparr>"
  by (auto simp add: write_memory_def split: option.splits sum.splits if_splits)

lemma write_register_config:
  "write_register U s nm v = Inr s' \<Longrightarrow> s'\<lparr>uc := None\<rparr> = s\<lparr>uc := None\<rparr>"
  by (auto simp add: write_register_def split: option.splits sum.splits)

lemma map_areas_config:
  "map_areas U s areas = Inr s' \<Longrightarrow> s'\<lparr>uc := None\<rparr> = s\<lparr>uc := None\<rparr>"
proof (induction areas arbitrary: s)
  case Nil
  then show ?case by simp
next
  case (Cons area areas)
  then obtain s1 where
    M: "memory_map U s (fst (area_request area)) (snd (area_request area)) (Some UC_PROT_ALL) = Inr s1"
    and R: "map_areas U s1 areas = Inr s'"
    by (auto split: sum.splits)
  show ?case
    using memory_map_config [OF M] Cons.IH [OF R] by simp
qed

lemma write_contents_config:
  "write_contents U s contents = Inr s' \<Longrightarrow> s'\<lparr>uc := None\<rparr> = s\<lparr>uc := None\<rparr>"
proof (induction contents arbitrary: s)
  case Nil
  then show ?case by simp
next
  case (Cons c contents)
  obtain a content where c: "c = (a, content)"
    by (cases c)
  from Cons.prems c obtain s1 r where
    W: "write_memory U s a content = Inr (s1, r)" and R: "write_contents U s1 contents = Inr s'"
    by (auto split: sum.splits prod.splits)
  show ?case
    using write_memory_config [OF W] Cons.IH [OF R] by simp
qed

lemma write_registers_config:
  "write_registers U s rs = Inr s' \<Longrightarrow> s'\<lparr>uc := None\<rparr> = s\<lparr>uc := None\<rparr>"
proof (induction rs arbitrary: s)
  case Nil
  then show ?case by simp
next
  case (Cons r rs)
  obtain nm v where r: "r = (nm, v)"
    by (cases r)
  from Cons.prems r obtain s1 where
    W: "write_register U s nm v = Inr s1" and R: "write_registers U s1 rs = Inr s'"
    by (auto split: sum.splits)
  show ?case
    using write_register_config [OF W] Cons.IH [OF R] by simp
qed

lemma commit_areas_config:
  assumes "commit_areas U s = Inr s'"
  shows "s'\<lparr>uc := None\<rparr> = s\<lparr>uc := None\<rparr>"
proof -
  from assms obtain s1 where M: "map_areas U s (memory_areas s) = Inr s1"
    and W: "write_contents U s1 (memory_contents s1) = Inr s'"
    by (auto simp add: commit_areas_def split: sum.splits)
  show ?thesis
    using map_areas_config [OF M] write_contents_config [OF W] by simp
qed

lemma initialize_memory_config:
  assumes "initialize_memory U s = Inr s'"
  shows "s'\<lparr>uc := None\<rparr> = s\<lparr>uc := None\<rparr>"
proof -
  from assms obtain s1 s2 r e e' where
    M: "memory_map U s (stack s) (stack_size s * PAGE_SIZE) None = Inr s1"
    and W: "write_memory U s1 (stack s1) (replicate (nat (stack_size s * PAGE_SIZE)) (CHR 0x00)) = Inr (s2, r)"
    and C: "commit_areas U (s2\<lparr>uc := Some e'\<rparr>) = Inr s'"
    by (auto simp add: initialize_memory_def Let_def split: sum.splits option.splits prod.splits)
  have "s'\<lparr>uc := None\<rparr> = s2\<lparr>uc := None\<rparr>"
    using commit_areas_config [OF C] by simp
  then show ?thesis
    using memory_map_config [OF M] write_memory_config [OF W] by simp
qed

lemma initialize_hooks_config:
  "initialize_hooks U s = Inr s' \<Longrightarrow> s'\<lparr>uc := None\<rparr> = s\<lparr>uc := None\<rparr>"
  by (auto simp add: initialize_hooks_def split: option.splits sum.splits if_splits)

lemma init_config:
  assumes "init U s = Inr s'"
  shows "s'\<lparr>uc := None, cs := None\<rparr> = s\<lparr>uc := None, cs := None\<rparr>"
proof -
  from assms obtain e s1 s2 where
    M: "initialize_memory U (s\<lparr>uc := Some e, cs := Some (cs_arch s, cs_mode s)\<rparr>) = Inr s1"
    and H: "initialize_hooks U s1 = Inr s2"
    and R: "write_registers U s2 (regs s2) = Inr s'"
    by (auto simp add: init_def initialize_registers_def split: sum.splits option.splits if_splits)
  have "s'\<lparr>uc := None\<rparr> = s\<lparr>uc := None, cs := Some (cs_arch s, cs_mode s)\<rparr>"
    using initialize_memory_config [OF M] initialize_hooks_config [OF H]
      write_registers_config [OF R] by simp
  then have "s'\<lparr>uc := None\<rparr>\<lparr>cs := None\<rparr> = s\<lparr>uc := None, cs := Some (cs_arch s, cs_mode s)\<rparr>\<lparr>cs := None\<rparr>"
    by (rule arg_cong)
  then show ?thesis
    by simp
qed

lemma init_ignores_handles: "init U (s\<lparr>uc := x, cs := y\<rparr>) = init U s"
  by (simp add: init_def cong: option.case_cong sum.case_cong if_cong)

lemma init_again:
  assumes "init U s = Inr s'"
  shows "init U s' = Inr s'"
proof -
  have "init U s' = init U (s'\<lparr>uc := None, cs := None\<rparr>)"
    by (simp only: init_ignores_handles)
  also have "\<dots> = init U (s\<lparr>uc := None, cs := None\<rparr>)"
    by (simp only: init_config [OF assms])
  also have "\<dots> = init U s"
    by (simp only: init_ignores_handles)
  finally show ?thesis
    using assms by simp
qed

text \<open>
  C7, as stated: after one successful \<^verbatim>\<open>init\<close>, a second call on the same session fails
  with an already-initialised error. On the simulated engine the first call takes
  \<open>x64_ready\<close> to \<open>x64_live\<close>, and the second call, made on \<open>x64_live\<close>, succeeds.
\<close>

theorem second_init_succeeds:
  "init sim_engine x64_ready = Inr x64_live \<and> init sim_engine x64_live = Inr x64_live"
  using sim_init init_again [OF sim_init] by blast

text \<open>
  C7, amended: \<^verbatim>\<open>init\<close> keeps no record of having run. A second call checks the
  parameters again, creates a new engine instance and a new disassembler in place of the
  old ones and commits memory, hooks and registers to the new engine; it changes nothing
  of the session but these two handles, and after a successful call every further call
  succeeds with the same resulting session.
\<close>

theorem init_is_repeatable:
  assumes "init U s = Inr s'"
  shows "init U s' = Inr s'
    \<and> s'\<lparr>uc := None, cs := None\<rparr> = s\<lparr>uc := None, cs := None\<rparr>
    \<and> init U (s\<lparr>uc := x, cs := y\<rparr>) = init U s"
  using init_again [OF assms] init_config [OF assms] init_ignores_handles by blast

theorem init_is_repeatable_witness:
  "init sim_engine x64_ready = Inr x64_live
   \<and> init sim_engine x64_live = Inr x64_live
   \<and> x64_live\<lparr>uc := None, cs := None\<rparr> = x64_ready\<lparr>uc := None, cs := None\<rparr>"
  using init_is_repeatable [OF sim_init] sim_init by blast

subsection \<open>The trace callback at a breakpoint\<close>

lemma x64_bp_built:
  assumes "EmulatedTargetX86_64 x64_ready = Inr (s1, t1)"
    and "target_init sim_engine
           (trace_instructions (add_breakpoint_callback (add_breakpoint_callback s1 (mark ''a''))
              (mark ''b''))) t1 True True = Inr (s2, t2)"
  shows "set_breakpoint s2 0x1000 = x64_bp \<and> t2 = x64_target"
proof -
  let ?cb = "\<lambda>address t. (breakpoint_callback t address, None)"
  have 1: "s1 = x64_ready\<lparr>breakpoints_callback := [?cb]\<rparr>"
    and 2: "t1 = x64_target\<lparr>register_list := None\<rparr>"
    using assms(1)
    by (auto simp add: EmulatedTargetX86_64_def add_breakpoint_callback_def Let_def
        x64_ready_def x64_fresh_def x64_target_def)
  have 3: "init sim_engine
        (trace_instructions (add_breakpoint_callback (add_breakpoint_callback s1 (mark ''a''))
              (mark ''b''))) = Inr (x64_bp\<lparr>breakpoints := []\<rparr>)"
    unfolding 1
    by (simp add: init_def initialize_hooks_def initialize_registers_def
        trace_instructions_def add_code_hook_def add_breakpoint_callback_def
        x64_ready_def x64_fresh_def x64_bp_def sim_engine_def uc_consts
        initialize_memory_def memory_map_def write_memory_def commit_areas_def
        is_valid_memory_range_def area_request_def align_address_def
        sim_new_def sim_overlaps_def sim_covers_def PAGE_SIZE_def UC_PROT_ALL_def Let_def
        CS_ARCH_X86_def CS_MODE_64_def UC_HOOK_CODE_def)
  have "s2 = x64_bp\<lparr>breakpoints := []\<rparr>" and T: "t2 = x64_target"
    using assms(2) by (auto simp add: target_init_def 3 2 x64_target_def)
  then have "set_breakpoint s2 0x1000 = x64_bp"
    by (simp add: set_breakpoint_def x64_bp_def)
  then show ?thesis
    using T by blast
qed

lemma arm_fresh_constructed:
  "PimpMyRide ''ARM'' 32 True 0x70000123 4 COMPILE_GCC = Inr arm_fresh"
  by (simp add: PimpMyRide_def select_architecture_def setup_registers_def setup_arm_def
      arm_fresh_def align_address_def PAGE_SIZE_def uc_consts COMPILE_GCC_def Let_def)

lemma arm_bp_built:
  assumes "EmulatedTargetX86_64 arm_fresh = Inr (s1, t1)"
    and "add_memory_area s1 0x1000 0x100 = Inr s2"
    and "add_memory_content s2 0x1000 [CHR 0x1E, CHR 0xFF, CHR 0x2F, CHR 0xE1] = Inr s3"
    and "target_init sim_engine
           (trace_instructions (s3\<lparr>start_address := Some 0x1000, return_address := Some 0x1004\<rparr>))
           t1 True True = Inr (s4, t2)"
  shows "set_breakpoint s4 0x1000 = arm_bp \<and> t2 = arm_target"
proof -
  let ?cb = "\<lambda>address t. (breakpoint_callback t address, None)"
  have 1: "s1 = arm_fresh\<lparr>breakpoints_callback := [?cb]\<rparr>"
    and 2: "t1 = arm_target\<lparr>register_list := None\<rparr>"
    using assms(1)
    by (auto simp add: EmulatedTargetX86_64_def add_breakpoint_callback_def Let_def
        arm_fresh_def arm_target_def)
  have 3: "s3 = s1\<lparr>memory_areas := [(0x1000, 0x100)],
                    memory_contents := [(0x1000, [CHR 0x1E, CHR 0xFF, CHR 0x2F, CHR 0xE1])]\<rparr>"
    using assms(2,3)
    by (auto simp add: add_memory_area_def add_memory_content_def 1 arm_fresh_def)
  have 4: "init sim_engine
        (trace_instructions (s3\<lparr>start_address := Some 0x1000, return_address := Some 0x1004\<rparr>))
         = Inr (arm_bp\<lparr>breakpoints := []\<rparr>)"
    unfolding 3 1
    by (simp add: init_def initialize_hooks_def initialize_registers_def
        trace_instructions_def add_code_hook_def
        arm_fresh_def arm_bp_def sim_engine_def uc_consts
        initialize_memory_def memory_map_def write_memory_def commit_areas_def
        is_valid_memory_range_def area_request_def align_address_def
        sim_new_def sim_overlaps_def sim_covers_def PAGE_SIZE_def UC_PROT_ALL_def Let_def
        CS_ARCH_ARM_def CS_MODE_ARM_def UC_HOOK_CODE_def)
  have "s4 = arm_bp\<lparr>breakpoints := []\<rparr>" and T: "t2 = arm_target"
    using assms(4) by (auto simp add: target_init_def 4 2 arm_target_def)
  then have "set_breakpoint s4 0x1000 = arm_bp"
    by (simp add: set_breakpoint_def arm_bp_def)
  then show ?thesis
    using T by blast
qed

lemma run_callbacks_foldl:
  assumes "\<And>cb w. cb \<in> set cbs \<Longrightarrow> snd (cb address w) = None"
  shows "run_callbacks cbs address w = (foldl (\<lambda>w cb. fst (cb address w)) w cbs, None)"
  using assms
proof (induction cbs arbitrary: w)
  case Nil
  show ?case by simp
next
  case (Cons cb cbs)
  have "snd (cb address w) = None"
    using Cons.prems by simp
  then obtain w1 where C: "cb address w = (w1, None)"
    by (cases "cb address w") simp
  have "run_callbacks cbs address w1 = (foldl (\<lambda>w cb. fst (cb address w)) w1 cbs, None)"
    using Cons.IH Cons.prems by simp
  then show ?case
    by (simp add: C)
qed

lemma code_callback_reaches_breakpoint_check:
  assumes "architecture s = Some UC_ARCH_MIPS
           \<or> (architecture s = Some UC_ARCH_X86 \<and> mode s = Some UC_MODE_64)"
    and "uc s = Some e"
    and "show_regs U s = Inr vs"
    and "uc_mem_read U e address sz = Inr opcodes"
    and "show_disasm_inst U s opcodes address = Inr (d # ds)"
    and "read_register U s (if architecture s = Some UC_ARCH_MIPS then ''pc'' else ''rip'') = Inr new_pc"
    and "address \<in> set (breakpoints s)"
    and "uc_emu_stop U e = Inr e'"
  shows "code_callback U s w address sz =
           (case run_callbacks (breakpoints_callback s) address w of
              (w', Some (UcError msg)) \<Rightarrow> (None, s\<lparr>start_address := Some new_pc, uc := Some e'\<rparr>, w')
            | (w', r) \<Rightarrow> (r, s\<lparr>start_address := Some new_pc, uc := Some e'\<rparr>, w'))"
proof -
  have N: "new_pc_of U s = Inr (Some new_pc)"
    using assms(1,6) by (auto simp add: new_pc_of_def uc_consts)
  show ?thesis
    by (simp add: code_callback_def assms(2,3,4,5,7,8) N Let_def)
qed

text \<open>
  C4, as stated: whenever the trace callback observes an address of the breakpoint set, it
  halts the engine and calls every breakpoint callback, and the target's callback sets the
  target to halted. On the ARM session \<open>arm_bp\<close>, which has a breakpoint at \<open>0x1000\<close>
  and the target's callback registered, the callback for the instruction at \<open>0x1000\<close>
  raises before it looks at the breakpoints: the engine is not stopped and the target's
  state is unchanged.
\<close>

theorem code_callback_raises_before_breakpoint_check:
  "0x1000 \<in> set (breakpoints arm_bp)
   \<and> length (breakpoints_callback arm_bp) = 1
   \<and> code_callback sim_engine arm_bp arm_target 0x1000 4 =
       (Some (PyException ''get PC not implemented for current architecture''), arm_bp, arm_target)
   \<and> map_option stopped (uc arm_bp) = Some False
   \<and> state arm_target = None"
proof -
  define e where "e = the (uc arm_bp)"
  have A: "architecture arm_bp = Some UC_ARCH_ARM" "uc arm_bp = Some e"
    "cs arm_bp = Some (CS_ARCH_ARM, CS_MODE_ARM)"
    by (simp_all add: e_def arm_bp_def arm_fresh_def)
  obtain ops where M: "uc_mem_read sim_engine e 0x1000 4 = Inr ops"
    by (simp add: e_def arm_bp_def sim_engine_def sim_covers_def)
  obtain dis where D: "show_disasm_inst sim_engine arm_bp ops 0x1000 = Inr dis"
    by (cases ops) (simp_all add: show_disasm_inst_def A(3) sim_engine_def)
  have S: "show_regs sim_engine arm_bp = Inr []"
    by (simp add: show_regs_def A(1) uc_consts)
  have N: "new_pc_of sim_engine arm_bp =
        Inl (PyException ''get PC not implemented for current architecture'')"
    by (simp add: new_pc_of_def A(1) uc_consts)
  have C: "code_callback sim_engine arm_bp arm_target 0x1000 4 =
       (Some (PyException ''get PC not implemented for current architecture''), arm_bp, arm_target)"
    by (simp add: code_callback_def S A(2) M D N)
  have B: "0x1000 \<in> set (breakpoints arm_bp)" "length (breakpoints_callback arm_bp) = 1"
    "map_option stopped (uc arm_bp) = Some False" "state arm_target = None"
    by (simp_all add: arm_bp_def arm_target_def)
  show ?thesis
    by (intro conjI) (rule B C)+
qed

lemma code_callback_at_breakpoint:
  assumes "architecture s = Some UC_ARCH_MIPS
           \<or> (architecture s = Some UC_ARCH_X86 \<and> mode s = Some UC_MODE_64)"
    and "uc s = Some e"
    and "show_regs U s = Inr vs"
    and "uc_mem_read U e address sz = Inr opcodes"
    and "show_disasm_inst U s opcodes address = Inr (d # ds)"
    and "read_register U s (if architecture s = Some UC_ARCH_MIPS then ''pc'' else ''rip'') = Inr new_pc"
    and "address \<in> set (breakpoints s)"
    and "uc_emu_stop U e = Inr e'"
  shows "code_callback U s w address sz =
           (case run_callbacks (breakpoints_callback s) address w of
              (w', Some (UcError msg)) \<Rightarrow> (None, s\<lparr>start_address := Some new_pc, uc := Some e'\<rparr>, w')
            | (w', r) \<Rightarrow> (r, s\<lparr>start_address := Some new_pc, uc := Some e'\<rparr>, w'))
    \<and> ((\<forall>cb \<in> set (breakpoints_callback s). \<forall>w. snd (cb address w) = None) \<longrightarrow>
         code_callback U s w address sz =
           (None, s\<lparr>start_address := Some new_pc, uc := Some e'\<rparr>,
            foldl (\<lambda>w cb. fst (cb address w)) w (breakpoints_callback s)))
    \<and> state (breakpoint_callback t address) = Some TARGET_HALTED"
proof -
  note R = code_callback_reaches_breakpoint_check [OF assms]
  have F: "code_callback U s w address sz =
           (None, s\<lparr>start_address := Some new_pc, uc := Some e'\<rparr>,
            foldl (\<lambda>w cb. fst (cb address w)) w (breakpoints_callback s))"
    if "\<forall>cb \<in> set (breakpoints_callback s). \<forall>w. snd (cb address w) = None"
    using that by (simp add: R run_callbacks_foldl)
  have H: "state (breakpoint_callback t address) = Some TARGET_HALTED"
    by (simp add: breakpoint_callback_def)
  show ?thesis
    using R F H by blast
qed

lemma new_pc_of_elsewhere:
  assumes "\<not> (architecture s = Some UC_ARCH_MIPS
              \<or> (architecture s = Some UC_ARCH_X86 \<and> mode s = Some UC_MODE_64))"
  shows "new_pc_of U s = Inr None \<or> (\<exists>msg. new_pc_of U s = Inl (PyException msg))"
  using assms by (auto simp add: new_pc_of_def)

lemma code_callback_elsewhere:
  assumes "\<not> (architecture s = Some UC_ARCH_MIPS
              \<or> (architecture s = Some UC_ARCH_X86 \<and> mode s = Some UC_MODE_64))"
  shows "\<exists>r. code_callback U s w address sz = (r, s, w)"
proof -
  consider (unbound) "new_pc_of U s = Inr None"
    | (raised) msg where "new_pc_of U s = Inl (PyException msg)"
    using new_pc_of_elsewhere [OF assms] by blast
  then show ?thesis
  proof cases
    case unbound
    then show ?thesis
      by (simp add: code_callback_def split: sum.split option.split list.split)
  next
    case raised
    then show ?thesis
      by (simp add: code_callback_def split: sum.split option.split)
  qed
qed

text \<open>
  C4, amended: on a MIPS or 64-bit x86 session with an engine, when the callback's register
  dump, its read of the instruction bytes, the disassembly (of at least one instruction)
  and the read of the program counter succeed, the address is in the breakpoint list and
  the engine accepts the stop request, the trace callback stores the program counter as
  the new start address, stops the engine and calls the breakpoint callbacks with the
  address in registration order, up to the first that raises; when none raises all are
  called. The target's callback sets the target's state to halted. On every other session
  (ARM, AArch64, 16- and 32-bit x86) the callback returns or raises with the session and
  the target as they were: the engine is not stopped and the target's state is not changed.
\<close>

theorem code_callback_breakpoint_hit:
  "((architecture s = Some UC_ARCH_MIPS
       \<or> (architecture s = Some UC_ARCH_X86 \<and> mode s = Some UC_MODE_64))
     \<and> uc s = Some e
     \<and> show_regs U s = Inr vs
     \<and> uc_mem_read U e address sz = Inr opcodes
     \<and> show_disasm_inst U s opcodes address = Inr (d # ds)
     \<and> read_register U s (if architecture s = Some UC_ARCH_MIPS then ''pc'' else ''rip'') = Inr new_pc
     \<and> address \<in> set (breakpoints s)
     \<and> uc_emu_stop U e = Inr e'
     \<longrightarrow>
       code_callback U s w address sz =
           (case run_callbacks (breakpoints_callback s) address w of
              (w', Some (UcError msg)) \<Rightarrow> (None, s\<lparr>start_address := Some new_pc, uc := Some e'\<rparr>, w')
            | (w', r) \<Rightarrow> (r, s\<lparr>start_address := Some new_pc, uc := Some e'\<rparr>, w'))
       \<and> ((\<forall>cb \<in> set (breakpoints_callback s). \<forall>w. snd (cb address w) = None) \<longrightarrow>
            code_callback U s w address sz =
              (None, s\<lparr>start_address := Some new_pc, uc := Some e'\<rparr>,
               foldl (\<lambda>w cb. fst (cb address w)) w (breakpoints_callback s)))
       \<and> state (breakpoint_callback t address) = Some TARGET_HALTED)
   \<and> (\<not> (architecture s = Some UC_ARCH_MIPS
            \<or> (architecture s = Some UC_ARCH_X86 \<and> mode s = Some UC_MODE_64))
       \<longrightarrow> (\<exists>r. code_callback U s w address sz = (r, s, w)))"
proof (rule conjI)
  show "(architecture s = Some UC_ARCH_MIPS
       \<or> (architecture s = Some UC_ARCH_X86 \<and> mode s = Some UC_MODE_64))
     \<and> uc s = Some e
     \<and> show_regs U s = Inr vs
     \<and> uc_mem_read U e address sz = Inr opcodes
     \<and> show_disasm_inst U s opcodes address = Inr (d # ds)
     \<and> read_register U s (if architecture s = Some UC_ARCH_MIPS then ''pc'' else ''rip'') = Inr new_pc
     \<and> address \<in> set (breakpoints s)
     \<and> uc_emu_stop U e = Inr e'
     \<longrightarrow>
       code_callback U s w address sz =
           (case run_callbacks (breakpoints_callback s) address w of
              (w', Some (UcError msg)) \<Rightarrow> (None, s\<lparr>start_address := Some new_pc, uc := Some e'\<rparr>, w')
            | (w', r) \<Rightarrow> (r, s\<lparr>start_address := Some new_pc, uc := Some e'\<rparr>, w'))
       \<and> ((\<forall>cb \<in> set (breakpoints_callback s). \<forall>w. snd (cb address w) = None) \<longrightarrow>
            code_callback U s w address sz =
              (None, s\<lparr>start_address := Some new_pc, uc := Some e'\<rparr>,
               foldl (\<lambda>w cb. fst (cb address w)) w (breakpoints_callback s)))
       \<and> state (breakpoint_callback t address) = Some TARGET_HALTED"
  proof (rule impI)
    assume H: "(architecture s = Some UC_ARCH_MIPS
       \<or> (architecture s = Some UC_ARCH_X86 \<and> mode s = Some UC_MODE_64))
     \<and> uc s = Some e
     \<and> show_regs U s = Inr vs
     \<and> uc_mem_read U e address sz = Inr opcodes
     \<and> show_disasm_inst U s opcodes address = Inr (d # ds)
     \<and> read_register U s (if architecture s = Some UC_ARCH_MIPS then ''pc'' else ''rip'') = Inr new_pc
     \<and> address \<in> set (breakpoints s)
     \<and> uc_emu_stop U e = Inr e'"
    have h1: "architecture s = Some UC_ARCH_MIPS
       \<or> (architecture s = Some UC_ARCH_X86 \<and> mode s = Some UC_MODE_64)"
      and h2: "uc s = Some e"
      and h3: "show_regs U s = Inr vs"
      and h4: "uc_mem_read U e address sz = Inr opcodes"
      and h5: "show_disasm_inst U s opcodes address = Inr (d # ds)"
      and h6: "read_register U s (if architecture s = Some UC_ARCH_MIPS then ''pc'' else ''rip'') = Inr new_pc"
      and h7: "address \<in> set (breakpoints s)"
      and h8: "uc_emu_stop U e = Inr e'"
      using H by blast+
    show "code_callback U s w address sz =
           (case run_callbacks (breakpoints_callback s) address w of
              (w', Some (UcError msg)) \<Rightarrow> (None, s\<lparr>start_address := Some new_pc, uc := Some e'\<rparr>, w')
            | (w', r) \<Rightarrow> (r, s\<lparr>start_address := Some new_pc, uc := Some e'\<rparr>, w'))
       \<and> ((\<forall>cb \<in> set (breakpoints_callback s). \<forall>w. snd (cb address w) = None) \<longrightarrow>
            code_callback U s w address sz =
              (None, s\<lparr>start_address := Some new_pc, uc := Some e'\<rparr>,
               foldl (\<lambda>w cb. fst (cb address w)) w (breakpoints_callback s)))
       \<and> state (breakpoint_callback t address) = Some TARGET_HALTED"
      by (rule code_callback_at_breakpoint [OF h1 h2 h3 h4 h5 h6 h7 h8])
  qed
next
  show "\<not> (architecture s = Some UC_ARCH_MIPS
            \<or> (architecture s = Some UC_ARCH_X86 \<and> mode s = Some UC_MODE_64))
       \<longrightarrow> (\<exists>r. code_callback U s w address sz = (r, s, w))"
    using code_callback_elsewhere [of s U w address sz] by blast
qed

theorem code_callback_breakpoint_hit_witness:
  "architecture x64_bp = Some UC_ARCH_X86 \<and> mode x64_bp = Some UC_MODE_64
   \<and> 0x1000 \<in> set (breakpoints x64_bp)
   \<and> uc_mem_read sim_engine (the (uc x64_bp)) 0x1000 1 = Inr [CHR 0xC3]
   \<and> show_disasm_inst sim_engine x64_bp [CHR 0xC3] 0x1000 = Inr [(''ret'', [])]
   \<and> read_register sim_engine x64_bp ''rip'' = Inr 0
   \<and> code_callback sim_engine x64_bp x64_target 0x1000 1 =
       (None,
        x64_bp\<lparr>start_address := Some 0, uc := Some ((the (uc x64_bp))\<lparr>stopped := True\<rparr>)\<rparr>,
        x64_target\<lparr>part_number := ''ab'', state := Some TARGET_HALTED\<rparr>)"
proof -
  have a1: "architecture x64_bp = Some UC_ARCH_MIPS
            \<or> (architecture x64_bp = Some UC_ARCH_X86 \<and> mode x64_bp = Some UC_MODE_64)"
    and a1': "architecture x64_bp = Some UC_ARCH_X86" "mode x64_bp = Some UC_MODE_64"
    and a2: "uc x64_bp = Some (the (uc x64_bp))"
    and a7: "0x1000 \<in> set (breakpoints x64_bp)"
    by (simp_all add: x64_bp_def x64_ready_def x64_fresh_def)
  obtain vs where a3: "show_regs sim_engine x64_bp = Inr vs"
    using show_regs_total [OF a2, of sim_engine] a1' by (auto simp add: sim_engine_def)
  have a4: "uc_mem_read sim_engine (the (uc x64_bp)) 0x1000 1 = Inr [CHR 0xC3]"
    by (simp add: x64_bp_def sim_engine_def sim_covers_def sim_byte_def)
  have a5: "show_disasm_inst sim_engine x64_bp [CHR 0xC3] 0x1000 = Inr [(''ret'', [])]"
    by (simp add: show_disasm_inst_def x64_bp_def sim_engine_def)
  have rip: "read_register sim_engine x64_bp ''rip'' = Inr 0"
    by (simp add: read_register_def reg_map_def dict_get_def x64_reg_map_def
        x64_bp_def x64_ready_def x64_fresh_def sim_engine_def uc_consts)
  have a6: "read_register sim_engine x64_bp
              (if architecture x64_bp = Some UC_ARCH_MIPS then ''pc'' else ''rip'') = Inr 0"
    using rip a1' by (simp add: uc_consts)
  have a8: "uc_emu_stop sim_engine (the (uc x64_bp)) = Inr ((the (uc x64_bp))\<lparr>stopped := True\<rparr>)"
    by (simp add: sim_engine_def)
  have Q: "\<forall>cb \<in> set (breakpoints_callback x64_bp). \<forall>w. snd (cb 0x1000 w) = None"
    by (simp add: x64_bp_def mark_def)
  have F: "foldl (\<lambda>w cb. fst (cb 0x1000 w)) x64_target (breakpoints_callback x64_bp) =
        x64_target\<lparr>part_number := ''ab'', state := Some TARGET_HALTED\<rparr>"
    by (simp add: x64_bp_def mark_def breakpoint_callback_def x64_target_def)
  note T = code_callback_breakpoint_hit [where U = sim_engine and s = x64_bp
      and e = "the (uc x64_bp)" and vs = vs and address = "0x1000" and sz = 1
      and opcodes = "[CHR 0xC3]" and d = "(''ret'', [])" and ds = "[]" and new_pc = 0
      and e' = "(the (uc x64_bp))\<lparr>stopped := True\<rparr>" and w = x64_target and t = x64_target,
      THEN conjunct1, THEN mp, THEN conjunct2, THEN conjunct1, THEN mp]
  have "code_callback sim_engine x64_bp x64_target 0x1000 1 =
       (None,
        x64_bp\<lparr>start_address := Some 0, uc := Some ((the (uc x64_bp))\<lparr>stopped := True\<rparr>)\<rparr>,
        foldl (\<lambda>w cb. fst (cb 0x1000 w)) x64_target (breakpoints_callback x64_bp))"
  proof (rule T)
    show "(architecture x64_bp = Some UC_ARCH_MIPS
            \<or> (architecture x64_bp = Some UC_ARCH_X86 \<and> mode x64_bp = Some UC_MODE_64))
      \<and> uc x64_bp = Some (the (uc x64_bp))
      \<and> show_regs sim_engine x64_bp = Inr vs
      \<and> uc_mem_read sim_engine (the (uc x64_bp)) 0x1000 1 = Inr [CHR 0xC3]
      \<and> show_disasm_inst sim_engine x64_bp [CHR 0xC3] 0x1000 = Inr [(''ret'', [])]
      \<and> read_register sim_engine x64_bp
              (if architecture x64_bp = Some UC_ARCH_MIPS then ''pc'' else ''rip'') = Inr 0
      \<and> 0x1000 \<in> set (breakpoints x64_bp)
      \<and> uc_emu_stop sim_engine (the (uc x64_bp)) = Inr ((the (uc x64_bp))\<lparr>stopped := True\<rparr>)"
      by (intro conjI) (rule a1 a2 a3 a4 a5 a6 a7 a8)+
    show "\<forall>cb \<in> set (breakpoints_callback x64_bp). \<forall>w. snd (cb 0x1000 w) = None"
      by (rule Q)
  qed
  then have C: "code_callback sim_engine x64_bp x64_target 0x1000 1 =
       (None,
        x64_bp\<lparr>start_address := Some 0, uc := Some ((the (uc x64_bp))\<lparr>stopped := True\<rparr>)\<rparr>,
        x64_target\<lparr>part_number := ''ab'', state := Some TARGET_HALTED\<rparr>)"
    by (simp only: F)
  show ?thesis
    by (intro conjI) (rule a1' a7 a4 a5 rip C)+
qed

subsection \<open>The register context round trip\<close>












lemma x64_loaded_built:
  assumes "write_register sim_engine x64_live ''rax'' 0x1122334455667788 = Inr s1"
    and "write_register sim_engine s1 ''rsi'' 7 = Inr s2"
  shows "s2 = x64_loaded"
  using assms
  by (auto simp add: write_register_def reg_map_def dict_get_def x64_reg_map_def
      x64_live_def x64_loaded_def x64_ready_def x64_fresh_def sim_engine_def uc_consts)

lemma x86_32_fresh_constructed:
  "PimpMyRide ''x86'' 32 True 0x70000000 4 COMPILE_GCC = Inr x86_32_fresh"
  by (simp add: PimpMyRide_def select_architecture_def setup_registers_def setup_x86_def
      x86_32_fresh_def align_address_def PAGE_SIZE_def uc_consts COMPILE_GCC_def Let_def)

lemma x86_32_live_built:
  assumes "EmulatedTargetX86_64 x86_32_fresh = Inr (s1, t1)"
    and "add_memory_area s1 0x1000 0x100 = Inr s2"
    and "add_memory_content s2 0x1000 [CHR 0xC3] = Inr s3"
    and "target_init sim_engine
           (s3\<lparr>start_address := Some 0x1000, return_address := Some 0x1001\<rparr>)
           t1 True True = Inr (s4, t2)"
  shows "s4 = x86_32_live \<and> t2 = x86_32_target"
proof -
  let ?cb = "\<lambda>address t. (breakpoint_callback t address, None)"
  have 1: "s1 = x86_32_fresh\<lparr>breakpoints_callback := [?cb]\<rparr>"
    and 2: "t1 = x86_32_target\<lparr>register_list := None\<rparr>"
    using assms(1)
    by (auto simp add: EmulatedTargetX86_64_def add_breakpoint_callback_def Let_def
        x86_32_fresh_def x86_32_target_def)
  have 3: "s3 = s1\<lparr>memory_areas := [(0x1000, 0x100)],
                    memory_contents := [(0x1000, [CHR 0xC3])]\<rparr>"
    using assms(2,3)
    by (auto simp add: add_memory_area_def add_memory_content_def 1 x86_32_fresh_def)
  have 4: "init sim_engine (s3\<lparr>start_address := Some 0x1000, return_address := Some 0x1001\<rparr>)
         = Inr x86_32_live"
    unfolding 3 1
    by (simp add: init_def initialize_hooks_def initialize_registers_def
        x86_32_fresh_def x86_32_live_def sim_engine_def uc_consts
        initialize_memory_def memory_map_def write_memory_def commit_areas_def
        is_valid_memory_range_def area_request_def align_address_def
        sim_new_def sim_overlaps_def sim_covers_def PAGE_SIZE_def UC_PROT_ALL_def Let_def
        CS_ARCH_X86_def CS_MODE_32_def)
  show ?thesis
    using assms(4) by (auto simp add: target_init_def 4 2 x86_32_target_def)
qed






end
